theory Spec2Isabelle
  imports Complex_Main
begin

section \<open>Recorded payloads and the Python operations applied to them\<close>

text \<open>
  A step's payload (\<^verbatim>\<open>event_data_json\<close>) is a loosely typed JSON value. The source
  probes it with \<^verbatim>\<open>isinstance\<close>, \<^verbatim>\<open>dict.get\<close> and truthiness tests, so the model
  keeps every JSON shape. An object is an association list read with \<open>map_of\<close> (a
  Python dict has each key once). Functions keep the names of the source, without the
  leading underscore of its private methods.

  Modelling conventions for numbers and text:
  \<^item> Python's \<^verbatim>\<open>int\<close> is \<open>int\<close>;
  \<^item> a Python \<^verbatim>\<open>float\<close> is a value of a type \<open>'f\<close> that the model does not look into.
    Float arithmetic is Python's own and not code of this repository: the model takes
    its operations as a parameter (the record \<open>float_ops\<close> below), so that rounding,
    infinities, NaN and the \<^verbatim>\<open>OverflowError\<close> of a conversion are whatever Python makes
    them;
  \<^item> a \<open>char\<close> stands for the code point of the same number (U+0000 to U+00FF).
\<close>

datatype 'f json =
    JNull
  | JBool bool
  | JInt int
  | JFloat 'f
  | JStr string
  | JList "'f json list"
  | JObj "(string \<times> 'f json) list"

datatype exn =
    PlaywrightTimeoutError
  | PlaywrightError
  | TypeError
  | AttributeError
  | ValueError
  | OverflowError
  | ZeroDivisionError
  | PyException string

text \<open>
  Python's float arithmetic, as far as the source uses it:
  \<^item> \<open>float_of_int\<close> is \<^verbatim>\<open>float(i)\<close> on an \<^verbatim>\<open>int\<close>, which is also how an \<^verbatim>\<open>int\<close> operand of a
    mixed operation is converted; it raises \<^verbatim>\<open>OverflowError\<close> beyond the float range;
  \<^item> \<open>int_truediv\<close> is \<^verbatim>\<open>i / j\<close> on two \<^verbatim>\<open>int\<close>s (it can raise as well);
  \<^item> \<open>float_truediv\<close>, \<open>float_add\<close>, \<open>float_mul\<close> are \<^verbatim>\<open>x / y\<close>, \<^verbatim>\<open>x + y\<close>, \<^verbatim>\<open>x * y\<close> on two
    floats (the division raises on a zero divisor);
  \<^item> \<open>float_is_zero\<close> is \<^verbatim>\<open>x == 0.0\<close>.
\<close>

record 'f float_ops =
  float_of_int :: "int \<Rightarrow> exn + 'f"
  int_truediv :: "int \<Rightarrow> int \<Rightarrow> exn + 'f"
  float_truediv :: "'f \<Rightarrow> 'f \<Rightarrow> exn + 'f"
  float_add :: "'f \<Rightarrow> 'f \<Rightarrow> 'f"
  float_mul :: "'f \<Rightarrow> 'f \<Rightarrow> 'f"
  float_is_zero :: "'f \<Rightarrow> bool"

text \<open>An expression that may raise, followed by what is evaluated next.\<close>

definition and_then :: "exn + 'a \<Rightarrow> ('a \<Rightarrow> exn + 'c) \<Rightarrow> exn + 'c" where
  "and_then r f = (case r of Inl e \<Rightarrow> Inl e | Inr a \<Rightarrow> f a)"

text \<open>Truthiness of a value, as \<^verbatim>\<open>if v:\<close>, \<^verbatim>\<open>not v\<close> and \<^verbatim>\<open>a or b\<close> test it.\<close>

fun truthy :: "'f float_ops \<Rightarrow> 'f json \<Rightarrow> bool" where
  "truthy fl JNull = False"
| "truthy fl (JBool b) = b"
| "truthy fl (JInt i) = (i \<noteq> 0)"
| "truthy fl (JFloat x) = (\<not> float_is_zero fl x)"
| "truthy fl (JStr s) = (s \<noteq> [])"
| "truthy fl (JList vs) = (vs \<noteq> [])"
| "truthy fl (JObj kvs) = (kvs \<noteq> [])"

definition py_or :: "'f float_ops \<Rightarrow> 'f json \<Rightarrow> 'f json \<Rightarrow> 'f json" where
  "py_or fl a b = (if truthy fl a then a else b)"

fun isinstance_dict :: "'f json \<Rightarrow> bool" where
  "isinstance_dict (JObj kvs) = True"
| "isinstance_dict _ = False"

text \<open>\<^verbatim>\<open>isinstance(v, (int, float))\<close>: Python's \<^verbatim>\<open>bool\<close> is a subclass of \<^verbatim>\<open>int\<close>.\<close>

fun is_number :: "'f json \<Rightarrow> bool" where
  "is_number (JInt i) = True"
| "is_number (JFloat x) = True"
| "is_number (JBool b) = True"
| "is_number _ = False"

text \<open>
  \<^verbatim>\<open>float(v)\<close>: the conversion of an \<^verbatim>\<open>int\<close> (a \<^verbatim>\<open>bool\<close> counts as 0 or 1), the identity on
  a float. The source applies it only to values that passed the \<^verbatim>\<open>isinstance\<close> test
  above, so the last equation is never reached from the functions below.
\<close>

fun py_float :: "'f float_ops \<Rightarrow> 'f json \<Rightarrow> exn + 'f" where
  "py_float fl (JInt i) = float_of_int fl i"
| "py_float fl (JBool b) = float_of_int fl (if b then 1 else 0)"
| "py_float fl (JFloat x) = Inr x"
| "py_float fl _ = Inl TypeError"

text \<open>
  \<^verbatim>\<open>v / 2\<close>: the true division of two \<^verbatim>\<open>int\<close>s when \<open>v\<close> is an \<^verbatim>\<open>int\<close>; when \<open>v\<close> is a float
  the \<^verbatim>\<open>2\<close> is converted first; a \<^verbatim>\<open>TypeError\<close> on anything that is not a number.
\<close>

fun py_truediv2 :: "'f float_ops \<Rightarrow> 'f json \<Rightarrow> exn + 'f" where
  "py_truediv2 fl (JInt i) = int_truediv fl i 2"
| "py_truediv2 fl (JBool b) = int_truediv fl (if b then 1 else 0) 2"
| "py_truediv2 fl (JFloat x) = and_then (float_of_int fl 2) (\<lambda>two. float_truediv fl x two)"
| "py_truediv2 fl _ = Inl TypeError"

text \<open>
  \<^verbatim>\<open>v + r\<close> for a float \<open>r\<close>: an \<^verbatim>\<open>int\<close> on the left is converted first; a \<^verbatim>\<open>TypeError\<close> on
  anything that is not a number.
\<close>

fun py_add_float :: "'f float_ops \<Rightarrow> 'f json \<Rightarrow> 'f \<Rightarrow> exn + 'f" where
  "py_add_float fl (JInt i) r = and_then (float_of_int fl i) (\<lambda>a. Inr (float_add fl a r))"
| "py_add_float fl (JBool b) r =
     and_then (float_of_int fl (if b then 1 else 0)) (\<lambda>a. Inr (float_add fl a r))"
| "py_add_float fl (JFloat x) r = Inr (float_add fl x r)"
| "py_add_float fl _ r = Inl TypeError"

text \<open>\<^verbatim>\<open>d.get(k)\<close> and \<^verbatim>\<open>d.get(k, default)\<close> on a value known to be a dict.\<close>

fun dict_get_default :: "'f json \<Rightarrow> string \<Rightarrow> 'f json \<Rightarrow> 'f json" where
  "dict_get_default (JObj kvs) k d = (case map_of kvs k of Some v \<Rightarrow> v | None \<Rightarrow> d)"
| "dict_get_default _ k d = d"

definition dict_get :: "'f json \<Rightarrow> string \<Rightarrow> 'f json" where
  "dict_get d k = dict_get_default d k JNull"

text \<open>\<^verbatim>\<open>payload.get(k) if isinstance(payload, dict) else None\<close>.\<close>

definition get_field :: "'f json \<Rightarrow> string \<Rightarrow> 'f json" where
  "get_field payload k = (if isinstance_dict payload then dict_get payload k else JNull)"

text \<open>\<^verbatim>\<open>payload.get(k)\<close> with no type test: an \<^verbatim>\<open>AttributeError\<close> off a dict.\<close>

definition py_get :: "'f json \<Rightarrow> string \<Rightarrow> exn + 'f json" where
  "py_get payload k = (if isinstance_dict payload then Inr (dict_get payload k) else Inl AttributeError)"

text \<open>
  \<^verbatim>\<open>str(v)\<close>: the identity on a string. The text Python prints for any other value
  is not part of this repository and is a parameter.
\<close>

definition py_str :: "('f json \<Rightarrow> string) \<Rightarrow> 'f json \<Rightarrow> string" where
  "py_str repr v = (case v of JStr s \<Rightarrow> s | _ \<Rightarrow> repr v)"

text \<open>\<^verbatim>\<open>str.isspace\<close>, \<^verbatim>\<open>str.split()\<close>, \<^verbatim>\<open>str.lower\<close>, \<^verbatim>\<open>str.rstrip("/")\<close>, \<^verbatim>\<open>str.endswith\<close>.\<close>

definition py_isspace :: "char \<Rightarrow> bool" where
  "py_isspace c = (of_char c \<in> {9, 10, 11, 12, 13, 28, 29, 30, 31, 32, 133, 160 :: nat})"

fun split_ws :: "string \<Rightarrow> string \<Rightarrow> string list" where
  "split_ws w [] = (if w = [] then [] else [w])"
| "split_ws w (c # cs) =
     (if py_isspace c then (if w = [] then split_ws [] cs else w # split_ws [] cs)
      else split_ws (w @ [c]) cs)"

definition py_split :: "string \<Rightarrow> string list" where
  "py_split s = split_ws [] s"

definition lower_char :: "char \<Rightarrow> char" where
  "lower_char c =
     (let n = of_char c :: nat
      in if (65 \<le> n \<and> n \<le> 90) \<or> (192 \<le> n \<and> n \<le> 222 \<and> n \<noteq> 215)
         then char_of (n + 32) else c)"

definition py_lower :: "string \<Rightarrow> string" where
  "py_lower s = map lower_char s"

definition rstrip_slash :: "string \<Rightarrow> string" where
  "rstrip_slash s = rev (dropWhile (\<lambda>c. c = CHR ''/'') (rev s))"

definition endswith :: "string \<Rightarrow> string \<Rightarrow> bool" where
  "endswith s suffix = (length suffix \<le> length s \<and> drop (length s - length suffix) s = suffix)"

section \<open>Payload targeting\<close>

subsection \<open>Coordinates\<close>

definition is_valid_point :: "'f json \<Rightarrow> bool" where
  "is_valid_point point =
     (isinstance_dict point \<and> is_number (dict_get point ''x'') \<and> is_number (dict_get point ''y''))"

text \<open>
  A returned pair \<^verbatim>\<open>float(a), float(b)\<close>: the first conversion is made first, and an
  exception of either leaves the function.
\<close>

definition float_pair :: "'f float_ops \<Rightarrow> 'f json \<Rightarrow> 'f json \<Rightarrow> exn + ('f \<times> 'f)" where
  "float_pair fl a b = and_then (py_float fl a) (\<lambda>x. and_then (py_float fl b) (\<lambda>y. Inr (x, y)))"

text \<open>
  The loop over \<^verbatim>\<open>("client", "page", "offset")\<close>: \<open>Inr None\<close> when it runs to its end,
  \<open>Inr (Some p)\<close> when it returns the point \<open>p\<close>.
\<close>

fun first_valid_point :: "'f float_ops \<Rightarrow> 'f json \<Rightarrow> string list \<Rightarrow> exn + ('f \<times> 'f) option" where
  "first_valid_point fl coords [] = Inr None"
| "first_valid_point fl coords (key # keys) =
     (let point = dict_get coords key
      in if is_valid_point point
         then and_then (float_pair fl (dict_get point ''x'') (dict_get point ''y''))
                (\<lambda>p. Inr (Some p))
         else first_valid_point fl coords keys)"

text \<open>
  \<^verbatim>\<open>float(relative["x"]) * float(viewport["width"])\<close> and the same for \<^verbatim>\<open>y\<close> and the height,
  evaluated left to right.
\<close>

definition scaled_point :: "'f float_ops \<Rightarrow> 'f json \<Rightarrow> 'f json \<Rightarrow> exn + ('f \<times> 'f)" where
  "scaled_point fl relative viewport =
     and_then (float_pair fl (dict_get relative ''x'') (dict_get viewport ''width''))
       (\<lambda>(rx, w). and_then (float_pair fl (dict_get relative ''y'') (dict_get viewport ''height''))
          (\<lambda>(ry, h). Inr (float_mul fl rx w, float_mul fl ry h)))"

text \<open>The body of \<^verbatim>\<open>if isinstance(coords, dict):\<close>; \<open>Inr None\<close> when it falls through.\<close>

definition from_coordinates :: "'f float_ops \<Rightarrow> 'f json \<Rightarrow> 'f json \<Rightarrow> exn + ('f \<times> 'f) option" where
  "from_coordinates fl payload coords =
     and_then (first_valid_point fl coords [''client'', ''page'', ''offset''])
       (\<lambda>found. case found of
          Some p \<Rightarrow> Inr (Some p)
        | None \<Rightarrow>
            (let relative = dict_get coords ''relative'';
                 viewport = py_or fl (dict_get coords ''viewport'') (dict_get payload ''viewport'')
             in if is_valid_point relative \<and> isinstance_dict viewport
                   \<and> is_number (dict_get viewport ''width'')
                   \<and> is_number (dict_get viewport ''height'')
                then and_then (scaled_point fl relative viewport) (\<lambda>p. Inr (Some p))
                else Inr None))"

text \<open>
  \<^verbatim>\<open>float(left + width / 2), float(top + height / 2)\<close> for left \<open>l\<close>, top \<open>t\<close>, width \<open>w\<close>
  and height \<open>h\<close>, evaluated left to right; \<^verbatim>\<open>float\<close> of a sum that is a float already
  changes nothing.
\<close>

definition rect_point ::
  "'f float_ops \<Rightarrow> 'f json \<Rightarrow> 'f json \<Rightarrow> 'f json \<Rightarrow> 'f json \<Rightarrow> exn + ('f \<times> 'f)" where
  "rect_point fl l t w h =
     and_then (py_truediv2 fl w)
       (\<lambda>w2. and_then (py_add_float fl l w2)
          (\<lambda>x. and_then (py_truediv2 fl h)
             (\<lambda>h2. and_then (py_add_float fl t h2)
                (\<lambda>y. Inr (x, y)))))"

text \<open>The tail of the function, from the flat \<^verbatim>\<open>x\<close>/\<^verbatim>\<open>y\<close> test on.\<close>

definition from_flat_or_rect :: "'f float_ops \<Rightarrow> 'f json \<Rightarrow> exn + ('f \<times> 'f) option" where
  "from_flat_or_rect fl payload =
     (let x = get_field payload ''x''; y = get_field payload ''y''
      in if is_number x \<and> is_number y
         then and_then (float_pair fl x y) (\<lambda>p. Inr (Some p))
         else
           (let rect = get_field payload ''elementRect''
            in if isinstance_dict rect
               then
                 (let left = dict_get rect ''left''; top = dict_get rect ''top'';
                      width = dict_get_default rect ''width'' (JInt 0);
                      height = dict_get_default rect ''height'' (JInt 0)
                  in if is_number left \<and> is_number top
                     then and_then (rect_point fl left top width height) (\<lambda>p. Inr (Some p))
                     else Inr None)
               else Inr None))"

definition extract_coordinates :: "'f float_ops \<Rightarrow> 'f json \<Rightarrow> exn + ('f \<times> 'f) option" where
  "extract_coordinates fl payload =
     (let coords = get_field payload ''coordinates''
      in and_then (if isinstance_dict coords then from_coordinates fl payload coords else Inr None)
           (\<lambda>found. case found of
              Some p \<Rightarrow> Inr (Some p)
            | None \<Rightarrow> from_flat_or_rect fl payload))"

subsection \<open>Selectors\<close>

definition CSS_ESCAPE_MAP :: "(char \<times> string) list" where
  "CSS_ESCAPE_MAP =
     [(CHR 0x0A, [CHR 0x5C, CHR ''A'', CHR '' '']),
      (CHR 0x0D, []),
      (CHR 0x0C, [CHR 0x5C, CHR ''C'', CHR '' '']),
      (CHR 0x09, [CHR '' '']),
      (CHR '' '', [CHR '' '']),
      (CHR 0x22, [CHR 0x5C, CHR 0x22]),
      (CHR 0x27, [CHR 0x5C, CHR 0x27]),
      (CHR ''#'', [CHR 0x5C, CHR ''#'']),
      (CHR '':'', [CHR 0x5C, CHR '':''])]"

definition css_escape :: "string \<Rightarrow> string" where
  "css_escape v = concat (map (\<lambda>ch. case map_of CSS_ESCAPE_MAP ch of Some s \<Rightarrow> s | None \<Rightarrow> [ch]) v)"

definition build_selector ::
  "'f float_ops \<Rightarrow> ('f json \<Rightarrow> string) \<Rightarrow> 'f json \<Rightarrow> exn + string option" where
  "build_selector fl repr payload =
     (let element_id = get_field payload ''id''
      in if truthy fl element_id then Inr (Some (''#'' @ css_escape (py_str repr element_id)))
         else
           (let class_name = get_field payload ''className'';
                tag = get_field payload ''tag''
            in if truthy fl class_name
               then
                 (let classes = map css_escape (py_split (py_str repr class_name))
                  in if classes \<noteq> []
                     then
                       (if truthy fl tag
                        then (case tag of
                                JStr t \<Rightarrow> Inr (Some (py_lower t @ concat (map (\<lambda>cls. ''.'' @ cls) classes)))
                              | _ \<Rightarrow> Inl AttributeError)
                        else Inr (Some (''*'' @ concat (map (\<lambda>cls. ''.'' @ cls) classes))))
                     else Inr None)
               else Inr None))"

section \<open>Collaborators: the browser page and the URL parser\<close>

text \<open>
  The Playwright page, Python's \<^verbatim>\<open>urllib.parse.urlparse\<close> and Python's built-in
  operations are not code of this repository. They are parameters of the model,
  gathered in one record:
  \<^item> \<open>page_url\<close> reads \<^verbatim>\<open>page.url\<close> off the browser state (the empty string also
    stands for an absent URL);
  \<^item> \<open>respond\<close> answers one awaited browser call: it either returns (with the number
    that \<^verbatim>\<open>count()\<close> yields, ignored for every other call) or raises, and gives the
    browser state after the call;
  \<^item> \<open>elapse\<close> is the browser state after \<^verbatim>\<open>asyncio.sleep\<close> of so many milliseconds;
  \<^item> \<open>urlparse\<close> returns the six components or raises (\<^verbatim>\<open>ValueError\<close>);
  \<^item> \<open>py_repr\<close> is \<^verbatim>\<open>str(v)\<close> on values that are not strings;
  \<^item> \<open>floats\<close> is Python's float arithmetic.
  Every exception of the model is a subclass of Python's \<^verbatim>\<open>Exception\<close>. Logging is
  not modelled.
\<close>

record ParseResult =
  scheme :: string
  netloc :: string
  path :: string
  params :: string
  query :: string
  fragment :: string

text \<open>\<^verbatim>\<open>page.locator(sel)\<close> and \<^verbatim>\<open>page.locator(sel).first\<close>.\<close>

datatype locator = Locator string | First string

text \<open>The awaited browser calls of the source; timeouts are in milliseconds.\<close>

datatype 'f call =
    Goto "'f json"
  | WaitForLoadState string nat
  | EvaluatePushState "'f json"
  | EvaluateScrollTo "'f json" "'f json"
  | MouseMove 'f 'f
  | MouseClick 'f 'f
  | KeyboardPress "'f json"
  | KeyboardType "'f json"
  | Count locator
  | Click locator nat
  | Fill locator "'f json" nat
  | Press locator string nat

datatype 'f event = Call "'f call" | Sleep nat

record ('b, 'f) env =
  page_url :: "'b \<Rightarrow> string"
  respond :: "'f call \<Rightarrow> 'b \<Rightarrow> (exn + nat) \<times> 'b"
  elapse :: "nat \<Rightarrow> 'b \<Rightarrow> 'b"
  urlparse :: "string \<Rightarrow> exn + ParseResult"
  py_repr :: "'f json \<Rightarrow> string"
  floats :: "'f float_ops"

text \<open>
  The replay session: the executor's flag, the browser state, and the calls and sleeps
  issued so far, oldest first (the last field only records; nothing reads it).
\<close>

record ('b, 'f) session =
  initial_navigation_done :: bool
  page :: 'b
  issued :: "'f event list"

definition browser_call :: "('b, 'f) env \<Rightarrow> 'f call \<Rightarrow> ('b, 'f) session \<Rightarrow> (exn + nat) \<times> ('b, 'f) session" where
  "browser_call E c s =
     (case respond E c (page s) of
        (r, b) \<Rightarrow> (r, s\<lparr>page := b, issued := issued s @ [Call c]\<rparr>))"

definition sleep :: "('b, 'f) env \<Rightarrow> nat \<Rightarrow> ('b, 'f) session \<Rightarrow> ('b, 'f) session" where
  "sleep E ms s = s\<lparr>page := elapse E ms (page s), issued := issued s @ [Sleep ms]\<rparr>"

text \<open>An awaited call whose return value is dropped.\<close>

definition await :: "('b, 'f) env \<Rightarrow> 'f call \<Rightarrow> ('b, 'f) session \<Rightarrow> (exn + unit) \<times> ('b, 'f) session" where
  "await E c s = (case browser_call E c s of (Inl e, s1) \<Rightarrow> (Inl e, s1) | (Inr n, s1) \<Rightarrow> (Inr (), s1))"

section \<open>Step classifier\<close>

record 'f StepModel =
  step_id :: int
  event_type :: string
  event_data_json :: "'f json"

text \<open>\<^verbatim>\<open>s.split(sep, maxsplit)\<close>.\<close>

fun py_split_on :: "char \<Rightarrow> nat \<Rightarrow> string \<Rightarrow> string list" where
  "py_split_on sep 0 s = [s]"
| "py_split_on sep (Suc n) s =
     (case dropWhile (\<lambda>c. c \<noteq> sep) s of
        [] \<Rightarrow> [s]
      | c # rest \<Rightarrow> takeWhile (\<lambda>c. c \<noteq> sep) s # py_split_on sep n rest)"

text \<open>The split always yields one to three parts; the first case cannot occur.\<close>

definition split_event_type :: "string \<Rightarrow> string \<times> string \<times> string" where
  "split_event_type et =
     (case py_split_on (CHR '':'') 2 et of
        [] \<Rightarrow> ([], [], [])
      | [a] \<Rightarrow> (a, [], [])
      | [a, b] \<Rightarrow> (a, b, [])
      | a # b # c # rest \<Rightarrow> (a, b, c))"

section \<open>Navigation handler\<close>

definition urls_differ :: "string \<Rightarrow> 'f json \<Rightarrow> exn + bool" where
  "urls_differ current target =
     (if current = [] then Inr True
      else (case target of
              JStr t \<Rightarrow> Inr (rstrip_slash current \<noteq> rstrip_slash t)
            | _ \<Rightarrow> Inl AttributeError))"

definition static_extensions :: "string list" where
  "static_extensions = [''.html'', ''.htm'', ''.php'', ''.asp'', ''.jsp'']"

text \<open>\<^verbatim>\<open>urlparse\<close> of a truthy value that is not a string raises inside the \<^verbatim>\<open>try\<close>.\<close>

definition urlparse_value :: "('b, 'f) env \<Rightarrow> 'f json \<Rightarrow> exn + ParseResult" where
  "urlparse_value E v = (case v of JStr t \<Rightarrow> urlparse E t | _ \<Rightarrow> Inl AttributeError)"

definition is_spa_route_change :: "('b, 'f) env \<Rightarrow> 'b \<Rightarrow> 'f json \<Rightarrow> bool" where
  "is_spa_route_change E pg target_url =
     (let current_url = page_url E pg
      in if current_url = [] \<or> current_url = ''about:blank'' then False
         else
           (case urlparse E current_url of
              Inl e \<Rightarrow> False
            | Inr current \<Rightarrow>
                (case urlparse_value E target_url of
                   Inl e \<Rightarrow> False
                 | Inr target \<Rightarrow>
                     if scheme current \<noteq> scheme target \<or> netloc current \<noteq> netloc target
                     then False
                     else if scheme current = scheme target \<and> netloc current = netloc target
                             \<and> path current = path target \<and> query current = query target
                     then True
                     else
                       (let target_path = py_lower (path target)
                        in if list_ex (endswith target_path) static_extensions then False
                           else True))))"

definition safe_goto :: "('b, 'f) env \<Rightarrow> 'f json \<Rightarrow> ('b, 'f) session \<Rightarrow> ('b, 'f) session" where
  "safe_goto E url s = snd (browser_call E (Goto url) s)"

definition safe_wait_for_load :: "('b, 'f) env \<Rightarrow> string \<Rightarrow> ('b, 'f) session \<Rightarrow> ('b, 'f) session" where
  "safe_wait_for_load E st s = snd (browser_call E (WaitForLoadState st 15000) s)"

definition perform_spa_navigation :: "('b, 'f) env \<Rightarrow> 'f json \<Rightarrow> ('b, 'f) session \<Rightarrow> ('b, 'f) session" where
  "perform_spa_navigation E url s =
     (case browser_call E (EvaluatePushState url) s of
        (Inr n, s1) \<Rightarrow> sleep E 300 s1
      | (Inl e, s1) \<Rightarrow> safe_goto E url s1)"

definition handle_state_step ::
  "('b, 'f) env \<Rightarrow> string \<Rightarrow> string \<Rightarrow> 'f json \<Rightarrow> ('b, 'f) session \<Rightarrow> (exn + unit) \<times> ('b, 'f) session" where
  "handle_state_step E subject action payload s =
     (if subject = ''browser'' \<and> action = ''navigated''
      then
        (let url = get_field payload ''url''
         in if \<not> truthy (floats E) url \<or> url = JStr ''about:blank'' then (Inr (), s)
            else
              (case (if \<not> initial_navigation_done s then Inr True
                     else urls_differ (page_url E (page s)) url) of
                 Inl e \<Rightarrow> (Inl e, s)
               | Inr necessary \<Rightarrow>
                   if necessary
                   then
                     (let s1 = (if is_spa_route_change E (page s) url
                                then perform_spa_navigation E url s
                                else safe_goto E url s)
                      in (Inr (), s1\<lparr>initial_navigation_done := True\<rparr>))
                   else (Inr (), s)))
      else if subject = ''page''
      then
        (if action = ''domcontentloaded'' \<or> action = ''domcontentload''
         then (Inr (), safe_wait_for_load E ''domcontentloaded'' s)
         else if action = ''loaded'' \<or> action = ''load''
         then (Inr (), safe_wait_for_load E ''load'' s)
         else (Inr (), s))
      else (Inr (), s))"

section \<open>Action handlers\<close>

text \<open>
  \<^verbatim>\<open>if selector:\<close> on an optional string: the selector when the test passes, \<open>None\<close>
  when the selector is absent or empty.
\<close>

definition truthy_selector :: "string option \<Rightarrow> string option" where
  "truthy_selector selector =
     (case selector of Some sel \<Rightarrow> if sel \<noteq> [] then Some sel else None | None \<Rightarrow> None)"

definition perform_pointer_click :: "('b, 'f) env \<Rightarrow> 'f json \<Rightarrow> ('b, 'f) session \<Rightarrow> (exn + unit) \<times> ('b, 'f) session" where
  "perform_pointer_click E payload s =
     (case extract_coordinates (floats E) payload of
        Inl e \<Rightarrow> (Inl e, s)
      | Inr None \<Rightarrow>
          (case build_selector (floats E) (py_repr E) payload of
             Inl e \<Rightarrow> (Inl e, s)
           | Inr selector \<Rightarrow>
               (case truthy_selector selector of
                  Some sel \<Rightarrow> await E (Click (Locator sel) 5000) s
                | None \<Rightarrow>
                    (Inl (PyException ''No coordinates or selector available for click''), s)))
      | Inr (Some (x, y)) \<Rightarrow>
          (case await E (MouseMove x y) s of
             (Inl e, s1) \<Rightarrow> (Inl e, s1)
           | (Inr u, s1) \<Rightarrow> await E (MouseClick x y) (sleep E 100 s1)))"

definition perform_pointer_move :: "('b, 'f) env \<Rightarrow> 'f json \<Rightarrow> ('b, 'f) session \<Rightarrow> (exn + unit) \<times> ('b, 'f) session" where
  "perform_pointer_move E payload s =
     (case extract_coordinates (floats E) payload of
        Inl e \<Rightarrow> (Inl e, s)
      | Inr None \<Rightarrow> (Inr (), s)
      | Inr (Some (x, y)) \<Rightarrow> await E (MouseMove x y) s)"

definition perform_scroll :: "('b, 'f) env \<Rightarrow> 'f json \<Rightarrow> ('b, 'f) session \<Rightarrow> (exn + unit) \<times> ('b, 'f) session" where
  "perform_scroll E payload s =
     (case py_get payload ''x'' of
        Inl e \<Rightarrow> (Inl e, s)
      | Inr x \<Rightarrow>
          (let y = dict_get payload ''y''
           in if is_number x \<and> is_number y
              then (Inr (), snd (browser_call E (EvaluateScrollTo x y) s))
              else (Inr (), s)))"

text \<open>
  The focused-element part of the input handler. Every exception inside its \<^verbatim>\<open>try\<close> is
  caught, and control then reaches the final \<^verbatim>\<open>raise\<close>.
\<close>

definition fill_focused :: "('b, 'f) env \<Rightarrow> 'f json \<Rightarrow> ('b, 'f) session \<Rightarrow> (exn + unit) \<times> ('b, 'f) session" where
  "fill_focused E v s =
     (case browser_call E (Count (Locator '':focus'')) s of
        (Inl e, s1) \<Rightarrow> (Inl (PyException ''Input operation failed''), s1)
      | (Inr n, s1) \<Rightarrow>
          if n > 0
          then
            (case browser_call E (Fill (Locator '':focus'') v 2000) s1 of
               (Inl e, s2) \<Rightarrow> (Inl (PyException ''Input operation failed''), s2)
             | (Inr m, s2) \<Rightarrow> (Inr (), s2))
          else (Inl (PyException ''Input operation failed''), s1))"

definition perform_input :: "('b, 'f) env \<Rightarrow> 'f json \<Rightarrow> ('b, 'f) session \<Rightarrow> (exn + unit) \<times> ('b, 'f) session" where
  "perform_input E payload s =
     (let v = get_field payload ''value''
      in if v = JNull then (Inr (), s)
         else
           (case build_selector (floats E) (py_repr E) payload of
              Inl e \<Rightarrow> (Inl e, s)
            | Inr selector \<Rightarrow>
                (case truthy_selector selector of
                   Some sel \<Rightarrow>
                     (case browser_call E (Fill (Locator sel) v 5000) s of
                        (Inr n, s1) \<Rightarrow> (Inr (), s1)
                      | (Inl e, s1) \<Rightarrow>
                          if e = PlaywrightTimeoutError then fill_focused E v s1
                          else (Inl e, s1))
                 | None \<Rightarrow> fill_focused E v s)))"

definition perform_keydown :: "('b, 'f) env \<Rightarrow> 'f json \<Rightarrow> ('b, 'f) session \<Rightarrow> (exn + unit) \<times> ('b, 'f) session" where
  "perform_keydown E payload s =
     (let key = get_field payload ''key''
      in if \<not> truthy (floats E) key then (Inr (), s)
         else
           (case await E (KeyboardPress key) s of
              (Inr u, s1) \<Rightarrow> (Inr (), s1)
            | (Inl e, s1) \<Rightarrow> await E (KeyboardType key) s1))"

text \<open>
  The submit handler, one definition for each block of its \<^verbatim>\<open>try\<close>, last block first.
  The \<^verbatim>\<open>except\<close> clause logs and raises the same exception again.
\<close>

definition submit_first_form :: "('b, 'f) env \<Rightarrow> ('b, 'f) session \<Rightarrow> (exn + unit) \<times> ('b, 'f) session" where
  "submit_first_form E s =
     (case browser_call E (Count (First ''form'')) s of
        (Inl e, s1) \<Rightarrow> (Inl e, s1)
      | (Inr n, s1) \<Rightarrow>
          if n > 0 then await E (Press (First ''form'') ''Enter'' 2000) s1
          else (Inl (PyException ''Submit operation failed''), s1))"

definition submit_focused :: "('b, 'f) env \<Rightarrow> ('b, 'f) session \<Rightarrow> (exn + unit) \<times> ('b, 'f) session" where
  "submit_focused E s =
     (case browser_call E (Count (Locator '':focus'')) s of
        (Inl e, s1) \<Rightarrow> (Inl e, s1)
      | (Inr n, s1) \<Rightarrow>
          if n > 0 then await E (Press (Locator '':focus'') ''Enter'' 2000) s1
          else submit_first_form E s1)"

definition submit_button_selector :: string where
  "submit_button_selector =
     ''button[type='' @ [CHR 0x22] @ ''submit'' @ [CHR 0x22] @ ''], input[type=''
       @ [CHR 0x22] @ ''submit'' @ [CHR 0x22] @ '']''"

definition submit_button :: "('b, 'f) env \<Rightarrow> ('b, 'f) session \<Rightarrow> (exn + unit) \<times> ('b, 'f) session" where
  "submit_button E s =
     (case browser_call E (Count (First submit_button_selector)) s of
        (Inl e, s1) \<Rightarrow> (Inl e, s1)
      | (Inr n, s1) \<Rightarrow>
          if n > 0 then await E (Click (First submit_button_selector) 2000) s1
          else submit_focused E s1)"

definition perform_submit :: "('b, 'f) env \<Rightarrow> 'f json \<Rightarrow> ('b, 'f) session \<Rightarrow> (exn + unit) \<times> ('b, 'f) session" where
  "perform_submit E payload s =
     (case build_selector (floats E) (py_repr E) payload of
        Inl e \<Rightarrow> (Inl e, s)
      | Inr selector \<Rightarrow>
          (case truthy_selector selector of
             Some sel \<Rightarrow>
               (case browser_call E (Count (Locator sel)) s of
                  (Inl e, s1) \<Rightarrow> (Inl e, s1)
                | (Inr n, s1) \<Rightarrow>
                    if n > 0 then await E (Press (Locator sel) ''Enter'' 2000) s1
                    else submit_button E s1)
           | None \<Rightarrow> submit_button E s))"

definition handle_user_action ::
  "('b, 'f) env \<Rightarrow> string \<Rightarrow> 'f json \<Rightarrow> ('b, 'f) session \<Rightarrow> (exn + unit) \<times> ('b, 'f) session" where
  "handle_user_action E action payload s =
     (if action = ''click'' then perform_pointer_click E payload s
      else if action = ''hover'' then perform_pointer_move E payload s
      else if action = ''scroll'' then perform_scroll E payload s
      else if action = ''input'' then perform_input E payload s
      else if action = ''keydown'' then perform_keydown E payload s
      else if action = ''submit'' then perform_submit E payload s
      else (Inr (), s))"

section \<open>Replay orchestrator\<close>

definition run_step :: "('b, 'f) env \<Rightarrow> 'f StepModel \<Rightarrow> ('b, 'f) session \<Rightarrow> (exn + unit) \<times> ('b, 'f) session" where
  "run_step E step s =
     (case split_event_type (event_type step) of
        (category, subject, action) \<Rightarrow>
          if category = ''state''
          then handle_state_step E subject action (event_data_json step) s
          else if category = ''action'' \<and> subject = ''user''
          then handle_user_action E action (event_data_json step) s
          else (Inr (), s))"

text \<open>
  \<^verbatim>\<open>run\<close> returns \<^verbatim>\<open>None\<close> on both of its exits. The model tells them apart: leaving
  through the \<^verbatim>\<open>return\<close> of the \<^verbatim>\<open>except\<close> clause is \<open>StoppedOnError\<close>, falling off the
  end of the loop is \<open>Completed\<close>. Next to the final session, the loop reports every
  step it passed to \<open>run_step\<close>, in order, with the exception that step raised, if any.
\<close>

datatype status = Completed | StoppedOnError

definition base_delay :: "bool \<Rightarrow> nat" where
  "base_delay run_human_trajectory = (if run_human_trajectory then 200 else 100)"

fun run_loop ::
  "('b, 'f) env \<Rightarrow> bool \<Rightarrow> 'f StepModel list \<Rightarrow> ('b, 'f) session
     \<Rightarrow> status \<times> ('f StepModel \<times> exn option) list \<times> ('b, 'f) session" where
  "run_loop E human [] s = (Completed, [], s)"
| "run_loop E human (step # steps) s =
     (case run_step E step s of
        (Inl e, s1) \<Rightarrow> (StoppedOnError, [(step, Some e)], s1)
      | (Inr u, s1) \<Rightarrow>
          (case run_loop E human steps (sleep E (base_delay human) s1) of
             (st, processed, s2) \<Rightarrow> (st, (step, None) # processed, s2)))"

definition run ::
  "('b, 'f) env \<Rightarrow> 'f StepModel list \<Rightarrow> bool \<Rightarrow> ('b, 'f) session
     \<Rightarrow> status \<times> ('f StepModel \<times> exn option) list \<times> ('b, 'f) session" where
  "run E trajectory human s =
     run_loop E human trajectory
       (if page_url E (page s) \<noteq> [] \<and> page_url E (page s) \<noteq> ''about:blank''
        then s\<lparr>initial_navigation_done := True\<rparr> else s)"

text \<open>The session a freshly constructed executor starts from, on a given page.\<close>

definition new_session :: "'b \<Rightarrow> ('b, 'f) session" where
  "new_session b = \<lparr>initial_navigation_done = False, page = b, issued = []\<rparr>"

section \<open>Coordinate sources as the specification names them\<close>

text \<open>
  The specification lists the places a payload can carry a target point. Each is
  defined here on its own, from the specification's words, to be compared with
  \<open>extract_coordinates\<close>: a source is \<open>Some\<close> when the payload has it, and then holds
  what Python makes of it (a point, or the exception of a conversion).
\<close>

text \<open>\<^verbatim>\<open>coordinates.client\<close>, \<^verbatim>\<open>coordinates.page\<close>, \<^verbatim>\<open>coordinates.offset\<close>: a numeric \<^verbatim>\<open>{x, y}\<close>.\<close>

definition named_point :: "'f float_ops \<Rightarrow> 'f json \<Rightarrow> string \<Rightarrow> (exn + 'f \<times> 'f) option" where
  "named_point fl payload key =
     (let c = get_field payload ''coordinates''
      in if isinstance_dict c \<and> is_valid_point (dict_get c key)
         then Some (float_pair fl (dict_get (dict_get c key) ''x'') (dict_get (dict_get c key) ''y''))
         else None)"

text \<open>
  \<^verbatim>\<open>coordinates.relative\<close> scaled by a viewport with numeric width and height, the
  viewport being \<^verbatim>\<open>coordinates.viewport\<close> or else the payload's own.
\<close>

definition relative_point :: "'f float_ops \<Rightarrow> 'f json \<Rightarrow> (exn + 'f \<times> 'f) option" where
  "relative_point fl payload =
     (let c = get_field payload ''coordinates'';
          relative = dict_get c ''relative'';
          viewport = py_or fl (dict_get c ''viewport'') (dict_get payload ''viewport'')
      in if isinstance_dict c \<and> is_valid_point relative \<and> isinstance_dict viewport
            \<and> is_number (dict_get viewport ''width'') \<and> is_number (dict_get viewport ''height'')
         then Some (scaled_point fl relative viewport)
         else None)"

text \<open>Flat numeric \<^verbatim>\<open>x\<close>/\<^verbatim>\<open>y\<close> at the top level of the payload.\<close>

definition flat_point :: "'f float_ops \<Rightarrow> 'f json \<Rightarrow> (exn + 'f \<times> 'f) option" where
  "flat_point fl payload =
     (if is_number (get_field payload ''x'') \<and> is_number (get_field payload ''y'')
      then Some (float_pair fl (get_field payload ''x'') (get_field payload ''y''))
      else None)"

text \<open>An \<^verbatim>\<open>elementRect\<close> that at least has a numeric left and top.\<close>

definition rect_anchored :: "'f json \<Rightarrow> bool" where
  "rect_anchored payload =
     (let rect = get_field payload ''elementRect''
      in isinstance_dict rect
         \<and> is_number (dict_get rect ''left'') \<and> is_number (dict_get rect ''top''))"

text \<open>
  The centre of an \<^verbatim>\<open>elementRect\<close> with a numeric left and top, a missing width or
  height counting as 0.
\<close>

definition rect_center :: "'f float_ops \<Rightarrow> 'f json \<Rightarrow> (exn + 'f \<times> 'f) option" where
  "rect_center fl payload =
     (let rect = get_field payload ''elementRect''
      in if rect_anchored payload
         then Some (rect_point fl (dict_get rect ''left'') (dict_get rect ''top'')
                      (dict_get_default rect ''width'' (JInt 0))
                      (dict_get_default rect ''height'' (JInt 0)))
         else None)"

text \<open>The first source that is there, in the order given; no coordinates when none is.\<close>

fun first_source :: "(exn + 'f \<times> 'f) option list \<Rightarrow> exn + ('f \<times> 'f) option" where
  "first_source [] = Inr None"
| "first_source (None # rest) = first_source rest"
| "first_source (Some r # rest) = and_then r (\<lambda>p. Inr (Some p))"

section \<open>Navigation and fallback vocabulary of the specification\<close>

text \<open>
  The specification's words for comparing two parsed URLs. An origin is the pair the
  source compares: scheme and network location.
\<close>

definition same_origin :: "ParseResult \<Rightarrow> ParseResult \<Rightarrow> bool" where
  "same_origin c p = (scheme c = scheme p \<and> netloc c = netloc p)"

definition same_path_query :: "ParseResult \<Rightarrow> ParseResult \<Rightarrow> bool" where
  "same_path_query c p = (path c = path p \<and> query c = query p)"

text \<open>The target path, lowercased, ends in one of the static-document extensions.\<close>

definition static_document :: "ParseResult \<Rightarrow> bool" where
  "static_document p = list_ex (endswith (py_lower (path p))) static_extensions"

text \<open>The same test on the path as it is written, without lowercasing.\<close>

definition static_document_as_written :: "ParseResult \<Rightarrow> bool" where
  "static_document_as_written p = list_ex (endswith (path p)) static_extensions"

text \<open>What an awaited call answered: it returned; it returned a positive count.\<close>

definition returned :: "exn + nat \<Rightarrow> bool" where
  "returned r = (case r of Inl e \<Rightarrow> False | Inr n \<Rightarrow> True)"

definition present :: "exn + nat \<Rightarrow> bool" where
  "present r = (case r of Inl e \<Rightarrow> False | Inr n \<Rightarrow> n > 0)"

text \<open>
  A chain of targets tried by presence: each target is a locator and the call to make
  on it. The targets are looked for in order; the call is made on the first one that
  is there, and on that one only; when none is there the chain fails.
\<close>

fun first_present ::
  "('b, 'f) env \<Rightarrow> (locator \<times> 'f call) list \<Rightarrow> ('b, 'f) session \<Rightarrow> (exn + unit) \<times> ('b, 'f) session" where
  "first_present E [] s = (Inl (PyException ''Submit operation failed''), s)"
| "first_present E ((loc, act) # rest) s =
     (case browser_call E (Count loc) s of
        (Inl e, s1) \<Rightarrow> (Inl e, s1)
      | (Inr n, s1) \<Rightarrow> if n > 0 then await E act s1 else first_present E rest s1)"

text \<open>The four targets of the submit handler; the first only when there is a selector.\<close>

definition submit_targets :: "string option \<Rightarrow> (locator \<times> 'f call) list" where
  "submit_targets selector =
     (case truthy_selector selector of
        Some sel \<Rightarrow> [(Locator sel, Press (Locator sel) ''Enter'' 2000)]
      | None \<Rightarrow> [])
     @ [(First submit_button_selector, Click (First submit_button_selector) 2000),
        (Locator '':focus'', Press (Locator '':focus'') ''Enter'' 2000),
        (First ''form'', Press (First ''form'') ''Enter'' 2000)]"

section \<open>Sample collaborators, payloads, steps and sessions\<close>

text \<open>
  An excerpt of Python's float arithmetic. A float that is a multiple of a quarter, of
  absolute value at most \<open>2 ^ 50\<close>, is \<open>Exact\<close> of the number it denotes: every such
  number is a float, and an operation whose exact result is such a number returns it.
  Converting an \<^verbatim>\<open>int\<close> of absolute value \<open>2 ^ 1024\<close> or more, or dividing two \<^verbatim>\<open>int\<close>s with
  a quotient that large, raises \<^verbatim>\<open>OverflowError\<close>; dividing by zero raises
  \<^verbatim>\<open>ZeroDivisionError\<close>. What Python does in any other case the excerpt does not work
  out: it answers \<open>Unmodelled\<close>.
\<close>

datatype sample_float = Exact real | Unmodelled

definition quarter :: "real \<Rightarrow> bool" where
  "quarter r = (4 * r = of_int \<lfloor>4 * r\<rfloor> \<and> \<bar>r\<bar> \<le> 2 ^ 50)"

definition exact_or_unmodelled :: "real \<Rightarrow> sample_float" where
  "exact_or_unmodelled r = (if quarter r then Exact r else Unmodelled)"

fun sample_op :: "(real \<Rightarrow> real \<Rightarrow> real) \<Rightarrow> sample_float \<Rightarrow> sample_float \<Rightarrow> sample_float" where
  "sample_op f (Exact a) (Exact b) = exact_or_unmodelled (f a b)"
| "sample_op f _ _ = Unmodelled"

fun sample_truediv :: "sample_float \<Rightarrow> sample_float \<Rightarrow> exn + sample_float" where
  "sample_truediv (Exact a) (Exact b) =
     (if b = 0 then Inl ZeroDivisionError else Inr (exact_or_unmodelled (a / b)))"
| "sample_truediv _ _ = Inr Unmodelled"

definition sample_floats :: "sample_float float_ops" where
  "sample_floats =
     \<lparr>float_of_int = (\<lambda>i. if \<bar>i\<bar> \<le> 2 ^ 50 then Inr (Exact (of_int i))
                          else if 2 ^ 1024 \<le> \<bar>i\<bar> then Inl OverflowError
                          else Inr Unmodelled),
      int_truediv = (\<lambda>i j. if j = 0 then Inl ZeroDivisionError
                           else if 2 ^ 1024 \<le> \<bar>of_int i / of_int j :: real\<bar> then Inl OverflowError
                           else Inr (exact_or_unmodelled (of_int i / of_int j))),
      float_truediv = sample_truediv,
      float_add = sample_op (+),
      float_mul = sample_op (*),
      float_is_zero = (\<lambda>x. x = Exact 0)\<rparr>"

definition payload_client_and_flat :: "sample_float json" where
  "payload_client_and_flat =
     JObj [(''coordinates'', JObj [(''client'', JObj [(''x'', JInt 3), (''y'', JFloat (Exact (5 / 2)))])]),
           (''x'', JInt 7), (''y'', JInt 8)]"

definition payload_relative :: "sample_float json" where
  "payload_relative =
     JObj [(''coordinates'',
              JObj [(''relative'', JObj [(''x'', JFloat (Exact (1 / 2))), (''y'', JFloat (Exact (1 / 4)))])]),
           (''viewport'', JObj [(''width'', JInt 800), (''height'', JInt 600)]),
           (''x'', JInt 7), (''y'', JInt 8)]"

definition payload_rect :: "'f json" where
  "payload_rect =
     JObj [(''elementRect'', JObj [(''left'', JInt 10), (''top'', JInt 20),
                                   (''width'', JInt 30), (''height'', JInt 5)])]"

definition payload_rect_left_top :: "'f json" where
  "payload_rect_left_top =
     JObj [(''elementRect'', JObj [(''left'', JInt 3), (''top'', JInt 4)])]"

definition payload_rect_text_width :: "'f json" where
  "payload_rect_text_width =
     JObj [(''elementRect'', JObj [(''left'', JInt 3), (''top'', JInt 4), (''width'', JStr ''10'')])]"

definition payload_rect_null_width :: "'f json" where
  "payload_rect_null_width =
     JObj [(''elementRect'', JObj [(''left'', JInt 1), (''top'', JInt 2), (''width'', JNull),
                                   (''height'', JInt 3)])]"

definition payload_huge_client :: "'f json" where
  "payload_huge_client =
     JObj [(''coordinates'', JObj [(''client'', JObj [(''x'', JInt (10 ^ 400)), (''y'', JInt 0)])])]"

definition payload_id_with_space :: "'f json" where
  "payload_id_with_space = JObj [(''id'', JStr ''foo bar'')]"

definition payload_class_and_tag :: "'f json" where
  "payload_class_and_tag = JObj [(''className'', JStr ''a b''), (''tag'', JStr ''DIV'')]"

definition payload_empty :: "sample_float json" where
  "payload_empty = JObj []"

definition payload_form :: "sample_float json" where
  "payload_form = JObj [(''id'', JStr ''f'')]"

definition payload_input :: "sample_float json" where
  "payload_input = JObj [(''id'', JStr ''q''), (''value'', JStr ''hi'')]"

text \<open>
  An excerpt of \<^verbatim>\<open>urllib.parse.urlparse\<close>: what it returns for the URLs used below
  (on \<^verbatim>\<open>http://[bad\<close> it raises \<^verbatim>\<open>ValueError\<close>). The excerpt answers every other input
  with an exception.
\<close>

definition parsed :: "string \<Rightarrow> string \<Rightarrow> string \<Rightarrow> string \<Rightarrow> ParseResult" where
  "parsed sch loc pth frag =
     \<lparr>scheme = sch, netloc = loc, path = pth, params = [], query = [], fragment = frag\<rparr>"

definition urlparse_excerpt :: "string \<Rightarrow> exn + ParseResult" where
  "urlparse_excerpt u =
     (if u = ''about:blank'' then Inr (parsed ''about'' [] ''blank'' [])
      else if u = ''about:blank#x'' then Inr (parsed ''about'' [] ''blank'' ''x'')
      else if u = ''https://example.com/a'' then Inr (parsed ''https'' ''example.com'' ''/a'' [])
      else if u = ''https://example.com/a#top'' then Inr (parsed ''https'' ''example.com'' ''/a'' ''top'')
      else if u = ''https://example.com/b'' then Inr (parsed ''https'' ''example.com'' ''/b'' [])
      else if u = ''https://example.com/b.html'' then Inr (parsed ''https'' ''example.com'' ''/b.html'' [])
      else if u = ''https://example.com/INDEX.HTML'' then Inr (parsed ''https'' ''example.com'' ''/INDEX.HTML'' [])
      else if u = ''https://other.example/a'' then Inr (parsed ''https'' ''other.example'' ''/a'' [])
      else if u = ''http://[bad'' then Inl ValueError
      else Inl ValueError)"

text \<open>
  A browser whose state is just the URL shown. Each call is answered by a fixed table;
  a navigation or history change that returns sets the URL; time changes nothing.
\<close>

definition scripted :: "(sample_float call \<Rightarrow> exn + nat) \<Rightarrow> (string, sample_float) env" where
  "scripted answer =
     \<lparr>page_url = (\<lambda>b. b),
      respond = (\<lambda>c b. (answer c,
                   case answer c of
                     Inl e \<Rightarrow> b
                   | Inr n \<Rightarrow> (case c of
                                Goto (JStr u) \<Rightarrow> u
                              | EvaluatePushState (JStr u) \<Rightarrow> u
                              | _ \<Rightarrow> b))),
      elapse = (\<lambda>ms b. b),
      urlparse = urlparse_excerpt,
      py_repr = (\<lambda>v. []),
      floats = sample_floats\<rparr>"

text \<open>Every call returns, and every locator matches one element.\<close>

definition answer_ok :: "sample_float call \<Rightarrow> exn + nat" where
  "answer_ok c = Inr 1"

text \<open>Every call fails, as on a page that was closed.\<close>

definition answer_closed :: "sample_float call \<Rightarrow> exn + nat" where
  "answer_closed c = Inl PlaywrightError"

text \<open>Every locator matches, a click works, pressing a key on an element times out.\<close>

definition answer_press_times_out :: "sample_float call \<Rightarrow> exn + nat" where
  "answer_press_times_out c = (case c of Press l k t \<Rightarrow> Inl PlaywrightTimeoutError | _ \<Rightarrow> Inr 1)"

text \<open>Only the locator given matches an element; every other call returns.\<close>

definition answer_only :: "locator \<Rightarrow> sample_float call \<Rightarrow> exn + nat" where
  "answer_only loc c = (case c of Count l \<Rightarrow> Inr (if l = loc then 1 else 0) | _ \<Rightarrow> Inr 0)"

text \<open>No locator matches an element.\<close>

definition answer_none :: "sample_float call \<Rightarrow> exn + nat" where
  "answer_none c = Inr 0"

text \<open>
  Filling through a selector fails with the error given (the element is focused and
  filling the focused element works).
\<close>

definition answer_fill_fails :: "exn \<Rightarrow> sample_float call \<Rightarrow> exn + nat" where
  "answer_fill_fails e c =
     (case c of Fill l v t \<Rightarrow> if l = Locator '':focus'' then Inr 0 else Inl e | _ \<Rightarrow> Inr 1)"

definition step_navigate :: "string \<Rightarrow> sample_float StepModel" where
  "step_navigate u =
     \<lparr>step_id = 1, event_type = ''state:browser:navigated'', event_data_json = JObj [(''url'', JStr u)]\<rparr>"

definition step_navigate_no_url :: "sample_float StepModel" where
  "step_navigate_no_url =
     \<lparr>step_id = 1, event_type = ''state:browser:navigated'', event_data_json = JObj []\<rparr>"

definition step_click_nothing :: "sample_float StepModel" where
  "step_click_nothing = \<lparr>step_id = 2, event_type = ''action:user:click'', event_data_json = JObj []\<rparr>"

definition step_click_button :: "sample_float StepModel" where
  "step_click_button =
     \<lparr>step_id = 2, event_type = ''action:user:click'',
      event_data_json = JObj [(''id'', JStr ''submit-btn'')]\<rparr>"

definition step_hover :: "sample_float StepModel" where
  "step_hover =
     \<lparr>step_id = 2, event_type = ''action:user:hover'',
      event_data_json = JObj [(''x'', JInt 7), (''y'', JInt 8)]\<rparr>"

definition step_hover_null_width :: "sample_float StepModel" where
  "step_hover_null_width =
     \<lparr>step_id = 2, event_type = ''action:user:hover'', event_data_json = payload_rect_null_width\<rparr>"

definition step_wait_load :: "sample_float StepModel" where
  "step_wait_load = \<lparr>step_id = 3, event_type = ''state:page:load'', event_data_json = JObj []\<rparr>"

text \<open>A session in which a navigation has already happened, on the page given.\<close>

definition navigated_session :: "'b \<Rightarrow> ('b, sample_float) session" where
  "navigated_session b = \<lparr>initial_navigation_done = True, page = b, issued = []\<rparr>"

text \<open>The session after a fresh executor replayed one navigation to the sample URL.\<close>

definition session_after_navigate :: "(string, sample_float) session" where
  "session_after_navigate =
     \<lparr>initial_navigation_done = True, page = ''https://example.com/a'',
      issued = [Call (Goto (JStr ''https://example.com/a'')), Sleep 100]\<rparr>"

definition session_after_three_steps :: "(string, sample_float) session" where
  "session_after_three_steps =
     \<lparr>initial_navigation_done = True, page = ''https://example.com/a'',
      issued = [Call (Goto (JStr ''https://example.com/a'')), Sleep 100,
                Call (Click (Locator ''#submit-btn'') 5000), Sleep 100,
                Call (WaitForLoadState ''load'' 15000), Sleep 100]\<rparr>"

definition sample_page :: "(string, sample_float) session" where
  "sample_page = navigated_session ''https://example.com/a''"

definition sample_page_issued :: "sample_float event list \<Rightarrow> (string, sample_float) session" where
  "sample_page_issued evs =
     \<lparr>initial_navigation_done = True, page = ''https://example.com/a'', issued = evs\<rparr>"

section \<open>Payload targeting: theorems\<close>

lemmas source_defs =
  named_point_def relative_point_def flat_point_def rect_center_def rect_anchored_def
  is_valid_point_def get_field_def dict_get_def py_or_def

lemmas exec_defs =
  run_def run_step_def split_event_type_def handle_state_step_def handle_user_action_def
  perform_pointer_click_def perform_pointer_move_def perform_input_def perform_submit_def
  perform_keydown_def perform_scroll_def fill_focused_def submit_button_def submit_focused_def
  submit_first_form_def is_spa_route_change_def urls_differ_def safe_goto_def
  safe_wait_for_load_def perform_spa_navigation_def urlparse_value_def
  browser_call_def await_def sleep_def base_delay_def new_session_def navigated_session_def
  truthy_selector_def scripted_def get_field_def dict_get_def py_get_def numeral_2_eq_2
  urlparse_excerpt_def parsed_def rstrip_slash_def

lemmas targeting_defs =
  extract_coordinates_def from_coordinates_def from_flat_or_rect_def build_selector_def
  is_valid_point_def py_or_def py_str_def css_escape_def CSS_ESCAPE_MAP_def
  py_split_def py_isspace_def float_pair_def scaled_point_def rect_point_def and_then_def

lemmas float_defs = sample_floats_def exact_or_unmodelled_def quarter_def

text \<open>
  The precedence of the sources, for every payload and whatever the float arithmetic:
  the result is that of the first source the payload has, in the order client, page,
  offset, relative, flat, rect; it is no coordinates when the payload has none.
\<close>

lemma first_valid_point_sources:
  "isinstance_dict (get_field payload ''coordinates'') \<Longrightarrow>
   first_valid_point fl (get_field payload ''coordinates'') [''client'', ''page'', ''offset''] =
     first_source [named_point fl payload ''client'', named_point fl payload ''page'',
                   named_point fl payload ''offset'']"
  by (simp add: named_point_def Let_def)

lemma from_flat_or_rect_sources:
  "from_flat_or_rect fl payload = first_source [flat_point fl payload, rect_center fl payload]"
  by (simp add: from_flat_or_rect_def flat_point_def rect_center_def rect_anchored_def Let_def)

lemma extract_coordinates_precedence:
  "extract_coordinates fl payload =
     first_source [named_point fl payload ''client'', named_point fl payload ''page'',
                   named_point fl payload ''offset'', relative_point fl payload,
                   flat_point fl payload, rect_center fl payload]"
proof (cases "isinstance_dict (get_field payload ''coordinates'')")
  case False
  then show ?thesis
    by (simp add: extract_coordinates_def from_flat_or_rect_sources named_point_def
          relative_point_def and_then_def)
next
  case True
  then show ?thesis
    by (auto simp: extract_coordinates_def from_coordinates_def first_valid_point_sources
          from_flat_or_rect_sources named_point_def relative_point_def and_then_def Let_def
          split: sum.splits option.splits)
qed

text \<open>The sources at work on sample payloads, in the sample float arithmetic.\<close>

lemma client_wins_over_flat:
  "extract_coordinates sample_floats payload_client_and_flat = Inr (Some (Exact 3, Exact (5 / 2)))"
  by (simp add: payload_client_and_flat_def targeting_defs get_field_def dict_get_def float_defs)

lemma relative_is_scaled:
  "extract_coordinates sample_floats payload_relative = Inr (Some (Exact 400, Exact 150))"
  by (simp add: payload_relative_def targeting_defs get_field_def dict_get_def float_defs)

lemma rect_gives_centre:
  "extract_coordinates sample_floats payload_rect = Inr (Some (Exact 25, Exact (45 / 2)))"
  by (simp add: payload_rect_def targeting_defs get_field_def dict_get_def float_defs)

lemma rect_left_top_only:
  "extract_coordinates sample_floats payload_rect_left_top = Inr (Some (Exact 3, Exact 4))"
  by (simp add: payload_rect_left_top_def targeting_defs get_field_def dict_get_def float_defs)

text \<open>A number beyond the float range: the conversion raises, and so does the extraction.\<close>

lemma huge_coordinate_overflows:
  "extract_coordinates sample_floats payload_huge_client = Inl OverflowError"
  by (simp add: payload_huge_client_def targeting_defs get_field_def dict_get_def float_defs)

text \<open>
  Claim C4. The source breaks the claim on the payload
  \<^verbatim>\<open>{"elementRect": {"left": 1, "top": 2, "width": null, "height": 3}}\<close>: no source of
  higher precedence applies and the rect has a numeric left and top, so by the claim
  the result is the centre of the rect or no coordinates; the source divides the width
  by two without testing it and raises \<^verbatim>\<open>TypeError\<close>, whatever the float arithmetic. A
  hover step with this payload stops the replay.
\<close>

theorem extract_coordinates_null_width_raises:
  "extract_coordinates fl payload_rect_null_width = Inl TypeError
   \<and> run (scripted answer_ok) [step_hover_null_width, step_wait_load] False
        (new_session ''https://example.com/a'')
       = (StoppedOnError, [(step_hover_null_width, Some TypeError)], sample_page_issued [])"
  by (simp add: exec_defs targeting_defs payload_rect_null_width_def step_hover_null_width_def
        step_wait_load_def sample_page_issued_def)

text \<open>
  Claim C10. A rect with just a numeric left and top resolves to that point, as the
  claim says (here in the sample float arithmetic). But a numeric left and top are not
  all the source requires: on \<^verbatim>\<open>{"elementRect": {"left": 3, "top": 4, "width": "10"}}\<close> it
  raises \<^verbatim>\<open>TypeError\<close>, whatever the float arithmetic, where the claim has the rect
  resolve.
\<close>

theorem element_rect_text_width_raises:
  "extract_coordinates sample_floats payload_rect_left_top = Inr (Some (Exact 3, Exact 4))
   \<and> rect_anchored (payload_rect_text_width :: 'f json)
   \<and> extract_coordinates fl payload_rect_text_width = Inl TypeError"
  by (simp add: payload_rect_left_top_def payload_rect_text_width_def rect_anchored_def
        targeting_defs get_field_def dict_get_def float_defs)

text \<open>
  Claim C5. For the payload \<^verbatim>\<open>{"id": "foo bar"}\<close> the selector built is \<^verbatim>\<open>#foo bar\<close>:
  the escape map sends a space to a plain space, so the space is not escaped and the
  result is not \<^verbatim>\<open>#foo\ bar\<close>.
\<close>

theorem build_selector_space_unescaped:
  "build_selector fl repr payload_id_with_space = Inr (Some ''#foo bar'')
   \<and> build_selector fl repr payload_id_with_space \<noteq> Inr (Some (''#foo'' @ [CHR 0x5C] @ '' bar''))"
  by (simp add: payload_id_with_space_def build_selector_def get_field_def dict_get_def
        py_str_def css_escape_def CSS_ESCAPE_MAP_def)

text \<open>The class branch: \<^verbatim>\<open>className="a b"\<close> with \<^verbatim>\<open>tag="DIV"\<close> gives \<^verbatim>\<open>div.a.b\<close>.\<close>

lemma lower_div: "py_lower ''DIV'' = ''div''"
  by code_simp

lemma build_selector_class_and_tag:
  "build_selector fl repr payload_class_and_tag = Inr (Some ''div.a.b'')"
  by (simp add: payload_class_and_tag_def build_selector_def get_field_def dict_get_def
        py_str_def css_escape_def CSS_ESCAPE_MAP_def py_split_def py_isspace_def lower_div)

section \<open>Replay orchestrator: theorems\<close>

lemma run_loop_append:
  "run_loop E h (pre @ post) s =
     (case run_loop E h pre s of
        (Completed, r1, s1) \<Rightarrow>
          (case run_loop E h post s1 of (st, r2, s2) \<Rightarrow> (st, r1 @ r2, s2))
      | (StoppedOnError, r1, s1) \<Rightarrow> (StoppedOnError, r1, s1))"
proof (induction pre arbitrary: s)
  case Nil
  show ?case by (simp split: prod.splits)
next
  case (Cons step pre)
  show ?case
  proof (cases "run_step E step s")
    case (Pair r s1)
    show ?thesis
    proof (cases r)
      case (Inl e)
      with Pair show ?thesis by simp
    next
      case (Inr u)
      with Pair Cons.IH [of "sleep E (base_delay h) s1"] show ?thesis
        by (simp split: prod.splits status.splits)
    qed
  qed
qed

lemma run_loop_shape:
  "run_loop E h ts s = (st, pr, s') \<Longrightarrow>
     (\<exists>n\<le>length ts. map fst pr = take n ts)
     \<and> (\<forall>r\<in>set (butlast pr). snd r = None)
     \<and> (st = StoppedOnError \<longleftrightarrow> pr \<noteq> [] \<and> snd (last pr) \<noteq> None)
     \<and> (st = Completed \<longleftrightarrow> map fst pr = ts \<and> (\<forall>r\<in>set pr. snd r = None))"
proof (induction ts arbitrary: s st pr s')
  case Nil
  then show ?case by auto
next
  case (Cons step ts)
  obtain r s1 where rs: "run_step E step s = (r, s1)" by (cases "run_step E step s")
  show ?case
  proof (cases r)
    case (Inl e)
    with rs Cons.prems have "st = StoppedOnError" "pr = [(step, Some e)]" by auto
    then show ?thesis by (auto intro: exI [of _ 1])
  next
    case (Inr u)
    obtain st2 pr2 s2 where rec: "run_loop E h ts (sleep E (base_delay h) s1) = (st2, pr2, s2)"
      by (cases "run_loop E h ts (sleep E (base_delay h) s1)")
    with rs Inr Cons.prems have eq: "st = st2" "pr = (step, None) # pr2" by auto
    from Cons.IH [OF rec] obtain n where n: "n \<le> length ts" "map fst pr2 = take n ts"
      and bl: "\<forall>r\<in>set (butlast pr2). snd r = None"
      and stop: "st2 = StoppedOnError \<longleftrightarrow> pr2 \<noteq> [] \<and> snd (last pr2) \<noteq> None"
      and comp: "st2 = Completed \<longleftrightarrow> map fst pr2 = ts \<and> (\<forall>r\<in>set pr2. snd r = None)"
      by blast
    have 1: "\<exists>m\<le>length (step # ts). map fst pr = take m (step # ts)"
      using n eq by (intro exI [of _ "Suc n"]) simp
    have 2: "\<forall>r\<in>set (butlast pr). snd r = None"
      using bl eq by (cases pr2) auto
    have 3: "st = StoppedOnError \<longleftrightarrow> pr \<noteq> [] \<and> snd (last pr) \<noteq> None"
      using stop eq comp by (cases pr2; cases st2) auto
    have 4: "st = Completed \<longleftrightarrow> map fst pr = step # ts \<and> (\<forall>r\<in>set pr. snd r = None)"
      using comp eq by auto
    from 1 2 3 4 show ?thesis by blast
  qed
qed

text \<open>
  Claim C1. The replay is fail-fast and in order.
  \<^item> If the steps before \<open>step\<close> are replayed without an exception and \<open>step\<close> then
    raises, the replay of any longer trajectory stops right there: its result is
    \<open>StoppedOnError\<close> with the session exactly as the raising step left it, whatever
    steps follow, and none of them is passed to \<open>run_step\<close>.
  \<^item> If \<open>step\<close> returns instead, the replay goes on after the pacing sleep.
  \<^item> For every trajectory, the steps processed are a prefix of the trajectory in its
    own order; only the last of them can have raised; the replay ends \<open>StoppedOnError\<close>
    exactly when the last one raised, and \<open>Completed\<close> exactly when every step of the
    trajectory was processed and none raised.
\<close>

theorem run_fail_fast:
  "(run E pre human s = (Completed, done, s1) \<and> run_step E step s1 = (Inl e, s2) \<longrightarrow>
      run E (pre @ step # post) human s = (StoppedOnError, done @ [(step, Some e)], s2))
   \<and> (run E pre human s = (Completed, done, s1) \<and> run_step E step s1 = (Inr (), s2) \<longrightarrow>
      run E (pre @ [step]) human s = (Completed, done @ [(step, None)], sleep E (base_delay human) s2))
   \<and> (run E trajectory human s = (st, processed, s') \<longrightarrow>
        (\<exists>n\<le>length trajectory. map fst processed = take n trajectory)
        \<and> (\<forall>r\<in>set (butlast processed). snd r = None)
        \<and> (st = StoppedOnError \<longleftrightarrow> processed \<noteq> [] \<and> snd (last processed) \<noteq> None)
        \<and> (st = Completed \<longleftrightarrow>
              map fst processed = trajectory \<and> (\<forall>r\<in>set processed. snd r = None)))"
proof (intro conjI impI)
  assume "run E pre human s = (Completed, done, s1) \<and> run_step E step s1 = (Inl e, s2)"
  then show "run E (pre @ step # post) human s = (StoppedOnError, done @ [(step, Some e)], s2)"
    by (simp add: run_def run_loop_append)
next
  assume "run E pre human s = (Completed, done, s1) \<and> run_step E step s1 = (Inr (), s2)"
  then show "run E (pre @ [step]) human s
               = (Completed, done @ [(step, None)], sleep E (base_delay human) s2)"
    by (simp add: run_def run_loop_append)
next
  assume a: "run E trajectory human s = (st, processed, s')"
  then have "run_loop E human trajectory
       (if page_url E (page s) \<noteq> [] \<and> page_url E (page s) \<noteq> ''about:blank''
        then s\<lparr>initial_navigation_done := True\<rparr> else s) = (st, processed, s')"
    by (simp add: run_def)
  from run_loop_shape [OF this]
  show "\<exists>n\<le>length trajectory. map fst processed = take n trajectory"
    and "\<forall>r\<in>set (butlast processed). snd r = None"
    and "st = StoppedOnError \<longleftrightarrow> processed \<noteq> [] \<and> snd (last processed) \<noteq> None"
    and "st = Completed \<longleftrightarrow> map fst processed = trajectory \<and> (\<forall>r\<in>set processed. snd r = None)"
    by blast+
qed

lemma replay_navigate_only:
  "run (scripted answer_ok) [step_navigate ''https://example.com/a''] False (new_session ''about:blank'')
     = (Completed, [(step_navigate ''https://example.com/a'', None)], session_after_navigate)"
  by (simp add: exec_defs step_navigate_def session_after_navigate_def answer_ok_def)

lemma replay_click_nothing_raises:
  "run_step (scripted answer_ok) step_click_nothing session_after_navigate
     = (Inl (PyException ''No coordinates or selector available for click''), session_after_navigate)"
  by (simp add: exec_defs targeting_defs step_click_nothing_def session_after_navigate_def answer_ok_def)

lemma replay_three_steps:
  "run (scripted answer_ok)
       [step_navigate ''https://example.com/a'', step_click_button, step_wait_load] False
       (new_session ''about:blank'')
     = (Completed,
        [(step_navigate ''https://example.com/a'', None), (step_click_button, None),
         (step_wait_load, None)],
        session_after_three_steps)"
  by (simp add: exec_defs targeting_defs step_navigate_def step_click_button_def step_wait_load_def
        session_after_three_steps_def answer_ok_def)

theorem run_fail_fast_witness:
  "run (scripted answer_ok) [step_navigate ''https://example.com/a''] False (new_session ''about:blank'')
     = (Completed, [(step_navigate ''https://example.com/a'', None)], session_after_navigate)
   \<and> run_step (scripted answer_ok) step_click_nothing session_after_navigate
     = (Inl (PyException ''No coordinates or selector available for click''), session_after_navigate)
   \<and> run (scripted answer_ok)
          [step_navigate ''https://example.com/a'', step_click_nothing, step_wait_load] False
          (new_session ''about:blank'')
     = (StoppedOnError,
        [(step_navigate ''https://example.com/a'', None),
         (step_click_nothing, Some (PyException ''No coordinates or selector available for click''))],
        session_after_navigate)
   \<and> run (scripted answer_ok)
          [step_navigate ''https://example.com/a'', step_click_button, step_wait_load] False
          (new_session ''about:blank'')
     = (Completed,
        [(step_navigate ''https://example.com/a'', None), (step_click_button, None),
         (step_wait_load, None)],
        session_after_three_steps)
   \<and> map fst [(step_navigate ''https://example.com/a'', None :: exn option), (step_click_button, None),
               (step_wait_load, None)]
     = [step_navigate ''https://example.com/a'', step_click_button, step_wait_load]"
  using replay_navigate_only replay_click_nothing_raises replay_three_steps
    run_fail_fast [of "scripted answer_ok" "[step_navigate ''https://example.com/a'']" False
      "new_session ''about:blank''" "[(step_navigate ''https://example.com/a'', None)]"
      session_after_navigate step_click_nothing
      "PyException ''No coordinates or selector available for click''" session_after_navigate
      "[step_wait_load]"
      "[step_navigate ''https://example.com/a'', step_click_button, step_wait_load]"
      Completed
      "[(step_navigate ''https://example.com/a'', None), (step_click_button, None),
        (step_wait_load, None)]"
      session_after_three_steps]
  by simp

section \<open>Navigation handler: theorems\<close>

lemma split_navigated:
  "split_event_type ''state:browser:navigated'' = (''state'', ''browser'', ''navigated'')"
  by (simp add: split_event_type_def numeral_2_eq_2)

text \<open>
  Claim C3 (as amended). In a session where a navigation has already happened and the
  page shows a non-empty URL, a navigated step whose target equals that URL once the
  trailing slashes of both are stripped does nothing: no browser call of any kind is
  issued and the session, page included, is left as it was.
\<close>

theorem redundant_navigation_skipped:
  assumes "initial_navigation_done s" and "page_url E (page s) \<noteq> []"
    and "get_field payload ''url'' = JStr t"
    and "rstrip_slash t = rstrip_slash (page_url E (page s))"
  shows "handle_state_step E ''browser'' ''navigated'' payload s = (Inr (), s)
         \<and> (event_type step = ''state:browser:navigated'' \<and> event_data_json step = payload \<longrightarrow>
              run_step E step s = (Inr (), s))"
proof -
  have "handle_state_step E ''browser'' ''navigated'' payload s = (Inr (), s)"
    using assms by (simp add: handle_state_step_def urls_differ_def Let_def)
  then show ?thesis by (simp add: run_step_def split_navigated)
qed

theorem redundant_navigation_skipped_witness:
  "initial_navigation_done (navigated_session ''https://example.com/a'')
   \<and> page_url (scripted answer_ok) (page (navigated_session ''https://example.com/a'')) \<noteq> []
   \<and> rstrip_slash ''https://example.com/a/''
       = rstrip_slash (page_url (scripted answer_ok) (page (navigated_session ''https://example.com/a'')))
   \<and> run_step (scripted answer_ok) (step_navigate ''https://example.com/a/'')
        (navigated_session ''https://example.com/a'')
       = (Inr (), navigated_session ''https://example.com/a'')"
proof -
  have h: "initial_navigation_done (navigated_session ''https://example.com/a'')"
      "page_url (scripted answer_ok) (page (navigated_session ''https://example.com/a'')) \<noteq> []"
      "get_field (JObj [(''url'', JStr ''https://example.com/a/'')]) ''url'' = JStr ''https://example.com/a/''"
      "rstrip_slash ''https://example.com/a/''
       = rstrip_slash (page_url (scripted answer_ok) (page (navigated_session ''https://example.com/a'')))"
    by (simp_all add: navigated_session_def scripted_def get_field_def dict_get_def rstrip_slash_def)
  from redundant_navigation_skipped [OF h, of "step_navigate ''https://example.com/a/''"] h
  show ?thesis by (simp add: step_navigate_def)
qed

text \<open>
  Claim C3 as stated fails when the page's URL is empty: the source then takes the URLs
  to differ without comparing them. With an empty current URL and the target \<^verbatim>\<open>/\<close>,
  both strip to the empty string, and the handler still navigates.
\<close>

theorem redundant_navigation_counterexample:
  "initial_navigation_done (navigated_session [])
   \<and> rstrip_slash ''/'' = rstrip_slash (page_url (scripted answer_ok) (page (navigated_session [])))
   \<and> handle_state_step (scripted answer_ok) ''browser'' ''navigated'' (JObj [(''url'', JStr ''/'')])
        (navigated_session [])
       = (Inr (), \<lparr>initial_navigation_done = True, page = ''/'', issued = [Call (Goto (JStr ''/''))]\<rparr>)"
  by (simp add: exec_defs answer_ok_def)

text \<open>
  Claim C9 (as amended). When the step carries a URL that is truthy and not the
  blank-page sentinel, the flag is true once the handler is done, on every path
  (navigation not needed, route change, document navigation, and also when the URL
  comparison raises). When the URL is missing, empty or the sentinel, the handler
  returns at once and the session, flag included, is what it was.
\<close>

theorem navigation_flag_set:
  "(truthy (floats E) (get_field payload ''url'')
      \<and> get_field payload ''url'' \<noteq> JStr ''about:blank'' \<longrightarrow>
      initial_navigation_done (snd (handle_state_step E ''browser'' ''navigated'' payload s)))
   \<and> (\<not> truthy (floats E) (get_field payload ''url'')
        \<or> get_field payload ''url'' = JStr ''about:blank'' \<longrightarrow>
      handle_state_step E ''browser'' ''navigated'' payload s = (Inr (), s))"
  by (auto simp: handle_state_step_def Let_def split: sum.splits)

theorem navigation_flag_set_witness:
  "truthy (floats (scripted answer_closed))
     (get_field (JObj [(''url'', JStr ''https://example.com/a'')]) ''url'')
   \<and> get_field (JObj [(''url'', JStr ''https://example.com/a'')]) ''url''
       \<noteq> (JStr ''about:blank'' :: sample_float json)
   \<and> initial_navigation_done
        (snd (handle_state_step (scripted answer_closed) ''browser'' ''navigated''
               (JObj [(''url'', JStr ''https://example.com/a'')]) (new_session ''about:blank'')))
   \<and> \<not> truthy (floats (scripted answer_closed)) (get_field payload_empty ''url'')
   \<and> handle_state_step (scripted answer_closed) ''browser'' ''navigated'' payload_empty
        (new_session ''about:blank'') = (Inr (), new_session ''about:blank'')"
proof -
  have h: "truthy (floats (scripted answer_closed))
             (get_field (JObj [(''url'', JStr ''https://example.com/a'')]) ''url'')"
      "get_field (JObj [(''url'', JStr ''https://example.com/a'')]) ''url''
         \<noteq> (JStr ''about:blank'' :: sample_float json)"
      "\<not> truthy (floats (scripted answer_closed)) (get_field payload_empty ''url'')"
    by (simp_all add: get_field_def dict_get_def payload_empty_def)
  from h navigation_flag_set [where payload = "JObj [(''url'', JStr ''https://example.com/a'')]"
            and E = "scripted answer_closed" and s = "new_session ''about:blank''"]
    navigation_flag_set [where payload = payload_empty and E = "scripted answer_closed"
            and s = "new_session ''about:blank''"]
  show ?thesis by simp
qed

text \<open>
  Claim C9 as stated fails on the skip for a missing URL: a fresh session on a blank
  page still has the flag false after such a step.
\<close>

theorem navigation_flag_counterexample:
  "handle_state_step (scripted answer_ok) ''browser'' ''navigated'' payload_empty
     (new_session ''about:blank'') = (Inr (), new_session ''about:blank'')
   \<and> \<not> initial_navigation_done (new_session ''about:blank'')
   \<and> run (scripted answer_ok) [step_navigate_no_url] False (new_session ''about:blank'')
       = (Completed, [(step_navigate_no_url, None)],
          \<lparr>initial_navigation_done = False, page = ''about:blank'', issued = [Sleep 100]\<rparr>)"
  by (simp add: exec_defs answer_ok_def payload_empty_def step_navigate_no_url_def)

text \<open>
  Claim C2 (as amended). While the page shows no URL or the blank-page sentinel, every
  navigation is classified real. Otherwise, when both URLs parse: a different origin is
  real; the same origin with the same path and query is a route change; the same origin
  with a different path or query is a route change unless the lowercased target path
  ends in a static-document extension, in which case it is real. When one of the two
  URLs does not parse, the navigation is real.
\<close>

theorem spa_classification:
  "(page_url E pg = [] \<or> page_url E pg = ''about:blank'' \<longrightarrow> \<not> is_spa_route_change E pg target)
   \<and> (page_url E pg \<noteq> [] \<and> page_url E pg \<noteq> ''about:blank''
        \<and> urlparse E (page_url E pg) = Inr c \<and> urlparse E t = Inr p \<longrightarrow>
        (\<not> same_origin c p \<longrightarrow> \<not> is_spa_route_change E pg (JStr t))
        \<and> (same_origin c p \<and> same_path_query c p \<longrightarrow> is_spa_route_change E pg (JStr t))
        \<and> (same_origin c p \<and> \<not> same_path_query c p \<and> \<not> static_document p \<longrightarrow>
              is_spa_route_change E pg (JStr t))
        \<and> (same_origin c p \<and> \<not> same_path_query c p \<and> static_document p \<longrightarrow>
              \<not> is_spa_route_change E pg (JStr t)))
   \<and> (urlparse E (page_url E pg) = Inl e \<or> urlparse E t = Inl e \<longrightarrow>
        \<not> is_spa_route_change E pg (JStr t))"
  by (auto simp: is_spa_route_change_def urlparse_value_def same_origin_def same_path_query_def
        static_document_def Let_def split: sum.splits)

lemma lower_index_html: "py_lower ''/INDEX.HTML'' = ''/index.html''"
  by code_simp

lemma lower_paths:
  "py_lower ''/a'' = ''/a''" "py_lower ''/b'' = ''/b''" "py_lower ''/b.html'' = ''/b.html''"
  by (simp_all add: py_lower_def lower_char_def)

lemmas url_defs =
  scripted_def urlparse_excerpt_def parsed_def same_origin_def same_path_query_def
  static_document_def static_document_as_written_def static_extensions_def endswith_def

theorem spa_classification_witness:
  "\<not> is_spa_route_change (scripted answer_ok) ''about:blank'' (JStr ''https://example.com/a'')
   \<and> \<not> same_origin (parsed ''https'' ''example.com'' ''/a'' []) (parsed ''https'' ''other.example'' ''/a'' [])
   \<and> \<not> is_spa_route_change (scripted answer_ok) ''https://example.com/a'' (JStr ''https://other.example/a'')
   \<and> same_origin (parsed ''https'' ''example.com'' ''/a'' []) (parsed ''https'' ''example.com'' ''/a'' ''top'')
   \<and> same_path_query (parsed ''https'' ''example.com'' ''/a'' []) (parsed ''https'' ''example.com'' ''/a'' ''top'')
   \<and> is_spa_route_change (scripted answer_ok) ''https://example.com/a'' (JStr ''https://example.com/a#top'')
   \<and> \<not> same_path_query (parsed ''https'' ''example.com'' ''/a'' []) (parsed ''https'' ''example.com'' ''/b'' [])
   \<and> \<not> static_document (parsed ''https'' ''example.com'' ''/b'' [])
   \<and> is_spa_route_change (scripted answer_ok) ''https://example.com/a'' (JStr ''https://example.com/b'')
   \<and> static_document (parsed ''https'' ''example.com'' ''/b.html'' [])
   \<and> \<not> is_spa_route_change (scripted answer_ok) ''https://example.com/a'' (JStr ''https://example.com/b.html'')
   \<and> static_document (parsed ''https'' ''example.com'' ''/INDEX.HTML'' [])
   \<and> \<not> is_spa_route_change (scripted answer_ok) ''https://example.com/a'' (JStr ''https://example.com/INDEX.HTML'')
   \<and> urlparse (scripted answer_ok) ''http://[bad'' = Inl ValueError
   \<and> \<not> is_spa_route_change (scripted answer_ok) ''https://example.com/a'' (JStr ''http://[bad'')"
proof -
  have u: "page_url (scripted answer_ok) ''about:blank'' = ''about:blank''"
      "page_url (scripted answer_ok) ''https://example.com/a'' \<noteq> []"
      "page_url (scripted answer_ok) ''https://example.com/a'' \<noteq> ''about:blank''"
      "urlparse (scripted answer_ok) (page_url (scripted answer_ok) ''https://example.com/a'')
         = Inr (parsed ''https'' ''example.com'' ''/a'' [])"
      "urlparse (scripted answer_ok) ''https://other.example/a'' = Inr (parsed ''https'' ''other.example'' ''/a'' [])"
      "urlparse (scripted answer_ok) ''https://example.com/a#top'' = Inr (parsed ''https'' ''example.com'' ''/a'' ''top'')"
      "urlparse (scripted answer_ok) ''https://example.com/b'' = Inr (parsed ''https'' ''example.com'' ''/b'' [])"
      "urlparse (scripted answer_ok) ''https://example.com/b.html'' = Inr (parsed ''https'' ''example.com'' ''/b.html'' [])"
      "urlparse (scripted answer_ok) ''https://example.com/INDEX.HTML'' = Inr (parsed ''https'' ''example.com'' ''/INDEX.HTML'' [])"
      "urlparse (scripted answer_ok) ''http://[bad'' = Inl ValueError"
    by (simp_all add: scripted_def urlparse_excerpt_def)
  have o: "\<not> same_origin (parsed ''https'' ''example.com'' ''/a'' []) (parsed ''https'' ''other.example'' ''/a'' [])"
      "same_origin (parsed ''https'' ''example.com'' ''/a'' []) (parsed ''https'' ''example.com'' ''/a'' ''top'')"
      "same_origin (parsed ''https'' ''example.com'' ''/a'' []) (parsed ''https'' ''example.com'' ''/b'' [])"
      "same_origin (parsed ''https'' ''example.com'' ''/a'' []) (parsed ''https'' ''example.com'' ''/b.html'' [])"
      "same_origin (parsed ''https'' ''example.com'' ''/a'' []) (parsed ''https'' ''example.com'' ''/INDEX.HTML'' [])"
      "same_path_query (parsed ''https'' ''example.com'' ''/a'' []) (parsed ''https'' ''example.com'' ''/a'' ''top'')"
      "\<not> same_path_query (parsed ''https'' ''example.com'' ''/a'' []) (parsed ''https'' ''example.com'' ''/b'' [])"
      "\<not> same_path_query (parsed ''https'' ''example.com'' ''/a'' []) (parsed ''https'' ''example.com'' ''/b.html'' [])"
      "\<not> same_path_query (parsed ''https'' ''example.com'' ''/a'' []) (parsed ''https'' ''example.com'' ''/INDEX.HTML'' [])"
    by (simp_all add: same_origin_def same_path_query_def parsed_def)
  have d: "\<not> static_document (parsed ''https'' ''example.com'' ''/b'' [])"
      "static_document (parsed ''https'' ''example.com'' ''/b.html'' [])"
      "static_document (parsed ''https'' ''example.com'' ''/INDEX.HTML'' [])"
    by (simp_all add: static_document_def parsed_def lower_paths lower_index_html
          static_extensions_def endswith_def)
  show ?thesis
    using u o d
      spa_classification [of "scripted answer_ok" "''about:blank''" "JStr ''https://example.com/a''"]
      spa_classification [of "scripted answer_ok" "''https://example.com/a''" _
         "parsed ''https'' ''example.com'' ''/a'' []" "''https://other.example/a''"
         "parsed ''https'' ''other.example'' ''/a'' []"]
      spa_classification [of "scripted answer_ok" "''https://example.com/a''" _
         "parsed ''https'' ''example.com'' ''/a'' []" "''https://example.com/a#top''"
         "parsed ''https'' ''example.com'' ''/a'' ''top''"]
      spa_classification [of "scripted answer_ok" "''https://example.com/a''" _
         "parsed ''https'' ''example.com'' ''/a'' []" "''https://example.com/b''"
         "parsed ''https'' ''example.com'' ''/b'' []"]
      spa_classification [of "scripted answer_ok" "''https://example.com/a''" _
         "parsed ''https'' ''example.com'' ''/a'' []" "''https://example.com/b.html''"
         "parsed ''https'' ''example.com'' ''/b.html'' []"]
      spa_classification [of "scripted answer_ok" "''https://example.com/a''" _
         "parsed ''https'' ''example.com'' ''/a'' []" "''https://example.com/INDEX.HTML''"
         "parsed ''https'' ''example.com'' ''/INDEX.HTML'' []"]
      spa_classification [of "scripted answer_ok" "''https://example.com/a''" _
         "parsed ''https'' ''example.com'' ''/a'' []" "''http://[bad''" _ ValueError]
    by simp
qed

text \<open>
  Claim C2 as stated fails on the blank page: \<^verbatim>\<open>about:blank\<close> and \<^verbatim>\<open>about:blank#x\<close> share
  origin, path and query, yet the navigation is classified real and a document
  navigation is issued.
\<close>

theorem spa_classification_counterexample:
  "urlparse (scripted answer_ok) (page_url (scripted answer_ok) ''about:blank'')
     = Inr (parsed ''about'' [] ''blank'' [])
   \<and> urlparse (scripted answer_ok) ''about:blank#x'' = Inr (parsed ''about'' [] ''blank'' ''x'')
   \<and> same_origin (parsed ''about'' [] ''blank'' []) (parsed ''about'' [] ''blank'' ''x'')
   \<and> same_path_query (parsed ''about'' [] ''blank'' []) (parsed ''about'' [] ''blank'' ''x'')
   \<and> \<not> is_spa_route_change (scripted answer_ok) ''about:blank'' (JStr ''about:blank#x'')
   \<and> handle_state_step (scripted answer_ok) ''browser'' ''navigated''
        (JObj [(''url'', JStr ''about:blank#x'')]) (new_session ''about:blank'')
       = (Inr (), \<lparr>initial_navigation_done = True, page = ''about:blank#x'',
                    issued = [Call (Goto (JStr ''about:blank#x''))]\<rparr>)"
  by (simp add: exec_defs answer_ok_def same_origin_def same_path_query_def)

text \<open>
  The extension test is on the lowercased path: \<^verbatim>\<open>/INDEX.HTML\<close> does not end in
  \<^verbatim>\<open>.html\<close> as written, and the navigation is classified real.
\<close>

lemma extension_test_lowercases:
  "urlparse (scripted answer_ok) (page_url (scripted answer_ok) ''https://example.com/a'')
     = Inr (parsed ''https'' ''example.com'' ''/a'' [])
   \<and> urlparse (scripted answer_ok) ''https://example.com/INDEX.HTML''
     = Inr (parsed ''https'' ''example.com'' ''/INDEX.HTML'' [])
   \<and> same_origin (parsed ''https'' ''example.com'' ''/a'' []) (parsed ''https'' ''example.com'' ''/INDEX.HTML'' [])
   \<and> \<not> same_path_query (parsed ''https'' ''example.com'' ''/a'' []) (parsed ''https'' ''example.com'' ''/INDEX.HTML'' [])
   \<and> \<not> static_document_as_written (parsed ''https'' ''example.com'' ''/INDEX.HTML'' [])
   \<and> \<not> is_spa_route_change (scripted answer_ok) ''https://example.com/a'' (JStr ''https://example.com/INDEX.HTML'')"
  by (simp add: is_spa_route_change_def urlparse_value_def url_defs lower_index_html)

section \<open>Action handlers: theorems\<close>

lemma issued_browser_call: "issued (snd (browser_call E c s)) = issued s @ [Call c]"
  by (simp add: browser_call_def split: prod.splits)

lemma issued_await: "issued (snd (await E c s)) = issued s @ [Call c]"
  using issued_browser_call [of E c s]
  by (auto simp: await_def split: prod.splits sum.splits)

lemma first_present_trace:
  "\<exists>k\<le>length ts.
     issued (snd (first_present E ts s)) = issued s @ map (\<lambda>t. Call (Count (fst t))) (take k ts)
     \<or> (0 < k \<and> issued (snd (first_present E ts s))
                  = issued s @ map (\<lambda>t. Call (Count (fst t))) (take k ts) @ [Call (snd (ts ! (k - 1)))])"
proof (induction ts arbitrary: s)
  case Nil
  show ?case by simp
next
  case (Cons t ts)
  obtain loc act where t: "t = (loc, act)" by (cases t)
  obtain r s1 where c: "browser_call E (Count loc) s = (r, s1)" by (cases "browser_call E (Count loc) s")
  have i1: "issued s1 = issued s @ [Call (Count loc)]"
    using issued_browser_call [of E "Count loc" s] c by simp
  show ?case
  proof (cases r)
    case (Inl e)
    with t c i1 show ?thesis by (intro exI [of _ 1]) simp
  next
    case (Inr n)
    show ?thesis
    proof (cases "n > 0")
      case True
      with t c i1 Inr issued_await [of E act s1] show ?thesis
        by (intro exI [of _ 1]) simp
    next
      case False
      from Cons.IH [of s1] obtain k where k: "k \<le> length ts"
        and d: "issued (snd (first_present E ts s1)) = issued s1 @ map (\<lambda>t. Call (Count (fst t))) (take k ts)
           \<or> (0 < k \<and> issued (snd (first_present E ts s1))
                  = issued s1 @ map (\<lambda>t. Call (Count (fst t))) (take k ts) @ [Call (snd (ts ! (k - 1)))])"
        by blast
      from False t c Inr have e: "first_present E (t # ts) s = first_present E ts s1" by simp
      from d show ?thesis
      proof
        assume "issued (snd (first_present E ts s1)) = issued s1 @ map (\<lambda>t. Call (Count (fst t))) (take k ts)"
        with e i1 t k show ?thesis by (intro exI [of _ "Suc k"]) simp
      next
        assume "0 < k \<and> issued (snd (first_present E ts s1))
                  = issued s1 @ map (\<lambda>t. Call (Count (fst t))) (take k ts) @ [Call (snd (ts ! (k - 1)))]"
        with e i1 t k show ?thesis by (intro exI [of _ "Suc k"]) (auto simp: nth_Cons')
      qed
    qed
  qed
qed

lemma submit_first_form_chain:
  "submit_first_form E s = first_present E [(First ''form'', Press (First ''form'') ''Enter'' 2000)] s"
  by (simp add: submit_first_form_def split: prod.splits sum.splits)

lemma submit_focused_chain:
  "submit_focused E s =
     first_present E [(Locator '':focus'', Press (Locator '':focus'') ''Enter'' 2000),
                      (First ''form'', Press (First ''form'') ''Enter'' 2000)] s"
  by (simp add: submit_focused_def submit_first_form_chain split: prod.splits sum.splits)

lemma submit_button_chain:
  "submit_button E s = first_present E (submit_targets None) s"
  by (simp add: submit_button_def submit_focused_chain submit_targets_def truthy_selector_def
        split: prod.splits sum.splits)

lemma submit_targets_Some:
  "truthy_selector selector = Some sel \<Longrightarrow>
   submit_targets selector = (Locator sel, Press (Locator sel) ''Enter'' 2000) # submit_targets None"
  by (simp add: submit_targets_def truthy_selector_def)

lemma submit_targets_None:
  "truthy_selector selector = None \<Longrightarrow> submit_targets selector = submit_targets None"
  by (simp add: submit_targets_def truthy_selector_def)

lemma perform_submit_chain:
  assumes "build_selector (floats E) (py_repr E) payload = Inr selector"
  shows "perform_submit E payload s = first_present E (submit_targets selector) s"
proof (cases "truthy_selector selector")
  case None
  with assms show ?thesis
    by (simp add: perform_submit_def submit_button_chain submit_targets_None)
next
  case (Some sel)
  with assms show ?thesis
    by (simp add: perform_submit_def submit_button_chain submit_targets_Some
          split: prod.splits sum.splits)
qed

text \<open>
  Claim C6 (as amended). The submit handler goes through its four targets in order
  (the element of the selector, the first submit-type button, the focused element, the
  first form), asks for each whether it is present, and acts on the first present one
  only: Enter is pressed on it (the button is clicked), with a 2 s timeout. The step's
  outcome is the outcome of that one action; the step fails when that action or a
  presence check raises, or when none of the targets is present. The calls issued are
  the presence checks of a prefix of the targets, followed by at most one action, on
  the last target checked.
\<close>

theorem submit_first_present:
  fixes E :: "('b, 'f) env"
  shows
  "build_selector (floats E) (py_repr E) payload = Inr selector \<longrightarrow>
     perform_submit E payload s = first_present E (submit_targets selector) s
     \<and> (\<exists>k\<le>length (submit_targets selector :: (locator \<times> 'f call) list).
          issued (snd (perform_submit E payload s))
            = issued s @ map (\<lambda>t. Call (Count (fst t)))
                           (take k (submit_targets selector :: (locator \<times> 'f call) list))
          \<or> (0 < k \<and> issued (snd (perform_submit E payload s))
                = issued s @ map (\<lambda>t. Call (Count (fst t)))
                               (take k (submit_targets selector :: (locator \<times> 'f call) list))
                    @ [Call (snd (submit_targets selector ! (k - 1)))]))"
  using first_present_trace [where ts = "submit_targets selector" and E = E and s = s]
  by (simp add: perform_submit_chain)

lemma build_selector_form: "build_selector (floats E) (py_repr E) payload_form = Inr (Some ''#f'')"
  by (simp add: payload_form_def targeting_defs get_field_def dict_get_def)

theorem submit_first_present_witness:
  "build_selector (floats (scripted (answer_only (First ''form''))))
       (py_repr (scripted (answer_only (First ''form'')))) payload_form = Inr (Some ''#f'')
   \<and> perform_submit (scripted (answer_only (First ''form''))) payload_form sample_page
       = (Inr (), sample_page_issued
            [Call (Count (Locator ''#f'')), Call (Count (First submit_button_selector)),
             Call (Count (Locator '':focus'')), Call (Count (First ''form'')),
             Call (Press (First ''form'') ''Enter'' 2000)])
   \<and> perform_submit (scripted answer_none) payload_form sample_page
       = (Inl (PyException ''Submit operation failed''), sample_page_issued
            [Call (Count (Locator ''#f'')), Call (Count (First submit_button_selector)),
             Call (Count (Locator '':focus'')), Call (Count (First ''form''))])"
proof -
  have a: "first_present (scripted (answer_only (First ''form''))) (submit_targets (Some ''#f'')) sample_page
       = (Inr (), sample_page_issued
            [Call (Count (Locator ''#f'')), Call (Count (First submit_button_selector)),
             Call (Count (Locator '':focus'')), Call (Count (First ''form'')),
             Call (Press (First ''form'') ''Enter'' 2000)])"
    by (simp add: submit_targets_def truthy_selector_def browser_call_def await_def scripted_def
          answer_only_def sample_page_def sample_page_issued_def navigated_session_def
          submit_button_selector_def)
  have b: "first_present (scripted answer_none) (submit_targets (Some ''#f'')) sample_page
       = (Inl (PyException ''Submit operation failed''), sample_page_issued
            [Call (Count (Locator ''#f'')), Call (Count (First submit_button_selector)),
             Call (Count (Locator '':focus'')), Call (Count (First ''form''))])"
    by (simp add: submit_targets_def truthy_selector_def browser_call_def await_def scripted_def
          answer_none_def sample_page_def sample_page_issued_def navigated_session_def
          submit_button_selector_def)
  note c = submit_first_present [THEN mp, OF build_selector_form, THEN conjunct1]
  show ?thesis
    using a b c [of "scripted (answer_only (First ''form''))" sample_page]
      c [of "scripted answer_none" sample_page]
    by (simp add: build_selector_form)
qed

text \<open>
  Claim C6 as stated fails when the first target is present and pressing Enter on it
  times out: the step raises at once, although a submit button is present and clicking
  it would have worked.
\<close>

theorem submit_fallback_counterexample:
  "perform_submit (scripted answer_press_times_out) payload_form sample_page
     = (Inl PlaywrightTimeoutError, sample_page_issued
          [Call (Count (Locator ''#f'')), Call (Press (Locator ''#f'') ''Enter'' 2000)])
   \<and> browser_call (scripted answer_press_times_out) (Count (First submit_button_selector))
        (sample_page_issued [])
       = (Inr 1, sample_page_issued [Call (Count (First submit_button_selector))])
   \<and> await (scripted answer_press_times_out) (Click (First submit_button_selector) 2000)
        (sample_page_issued [])
       = (Inr (), sample_page_issued [Call (Click (First submit_button_selector) 2000)])"
  by (simp add: exec_defs targeting_defs payload_form_def answer_press_times_out_def sample_page_def
        sample_page_issued_def)

lemma fill_focused_outcome:
  "browser_call E (Count (Locator '':focus'')) s = (rc, s2) \<Longrightarrow>
   browser_call E (Fill (Locator '':focus'') v 2000) s2 = (rf, s3) \<Longrightarrow>
   fill_focused E v s =
     (if present rc
      then (if returned rf then (Inr (), s3) else (Inl (PyException ''Input operation failed''), s3))
      else (Inl (PyException ''Input operation failed''), s2))"
  by (auto simp: fill_focused_def present_def returned_def split: sum.splits)

text \<open>
  Claim C7 (as amended). Without a value the input handler does nothing. With a value
  and a selector, the selector fill (5 s) decides: if it returns the step is done; if
  it times out the focused-element fill is attempted; if it fails in any other way the
  step fails at once with that error. Without a selector the focused-element fill is
  attempted directly. The focused-element attempt succeeds when a focused element is
  present and the fill (2 s) returns, and otherwise fails the step.
\<close>

theorem input_fallback:
  "(get_field payload ''value'' = JNull \<longrightarrow> perform_input E payload s = (Inr (), s))
   \<and> (get_field payload ''value'' = v \<and> v \<noteq> JNull
        \<and> build_selector (floats E) (py_repr E) payload = Inr selector \<longrightarrow>
        (truthy_selector selector = None \<longrightarrow> perform_input E payload s = fill_focused E v s)
        \<and> (truthy_selector selector = Some sel
             \<and> browser_call E (Fill (Locator sel) v 5000) s = (r, s1) \<longrightarrow>
             (returned r \<longrightarrow> perform_input E payload s = (Inr (), s1))
             \<and> (r = Inl PlaywrightTimeoutError \<longrightarrow> perform_input E payload s = fill_focused E v s1)
             \<and> (r = Inl e \<and> e \<noteq> PlaywrightTimeoutError \<longrightarrow>
                   perform_input E payload s = (Inl e, s1))))
   \<and> (browser_call E (Count (Locator '':focus'')) s0 = (rc, s2)
        \<and> browser_call E (Fill (Locator '':focus'') v 2000) s2 = (rf, s3) \<longrightarrow>
        fill_focused E v s0 =
          (if present rc
           then (if returned rf then (Inr (), s3)
                 else (Inl (PyException ''Input operation failed''), s3))
           else (Inl (PyException ''Input operation failed''), s2)))"
proof (intro conjI impI)
  assume "get_field payload ''value'' = JNull"
  then show "perform_input E payload s = (Inr (), s)" by (simp add: perform_input_def)
next
  assume "get_field payload ''value'' = v \<and> v \<noteq> JNull \<and> build_selector (floats E) (py_repr E) payload = Inr selector"
    and "truthy_selector selector = None"
  then show "perform_input E payload s = fill_focused E v s"
    by (auto simp: perform_input_def Let_def)
next
  assume a: "get_field payload ''value'' = v \<and> v \<noteq> JNull \<and> build_selector (floats E) (py_repr E) payload = Inr selector"
    and b: "truthy_selector selector = Some sel \<and> browser_call E (Fill (Locator sel) v 5000) s = (r, s1)"
  {
    assume "returned r"
    with a b show "perform_input E payload s = (Inr (), s1)"
      by (auto simp: perform_input_def Let_def returned_def split: sum.splits)
  next
    assume "r = Inl PlaywrightTimeoutError"
    with a b show "perform_input E payload s = fill_focused E v s1"
      by (auto simp: perform_input_def Let_def)
  next
    assume "r = Inl e \<and> e \<noteq> PlaywrightTimeoutError"
    with a b show "perform_input E payload s = (Inl e, s1)"
      by (auto simp: perform_input_def Let_def)
  }
next
  assume "browser_call E (Count (Locator '':focus'')) s0 = (rc, s2)
        \<and> browser_call E (Fill (Locator '':focus'') v 2000) s2 = (rf, s3)"
  then show "fill_focused E v s0 =
          (if present rc
           then (if returned rf then (Inr (), s3)
                 else (Inl (PyException ''Input operation failed''), s3))
           else (Inl (PyException ''Input operation failed''), s2))"
    using fill_focused_outcome by blast
qed

lemma build_selector_input: "build_selector (floats E) (py_repr E) payload_input = Inr (Some ''#q'')"
  by (simp add: payload_input_def targeting_defs get_field_def dict_get_def)

lemmas browser_defs =
  browser_call_def await_def scripted_def sample_page_def sample_page_issued_def
  navigated_session_def

theorem input_fallback_witness:
  "get_field payload_empty ''value'' = JNull
   \<and> perform_input (scripted answer_closed) payload_empty sample_page = (Inr (), sample_page)
   \<and> get_field payload_input ''value'' = JStr ''hi''
   \<and> build_selector (floats (scripted (answer_fill_fails PlaywrightTimeoutError)))
       (py_repr (scripted (answer_fill_fails PlaywrightTimeoutError))) payload_input
       = Inr (Some ''#q'')
   \<and> browser_call (scripted (answer_fill_fails PlaywrightTimeoutError))
        (Fill (Locator ''#q'') (JStr ''hi'') 5000) sample_page
       = (Inl PlaywrightTimeoutError,
          sample_page_issued [Call (Fill (Locator ''#q'') (JStr ''hi'') 5000)])
   \<and> perform_input (scripted (answer_fill_fails PlaywrightTimeoutError)) payload_input sample_page
       = (Inr (), sample_page_issued
            [Call (Fill (Locator ''#q'') (JStr ''hi'') 5000), Call (Count (Locator '':focus'')),
             Call (Fill (Locator '':focus'') (JStr ''hi'') 2000)])"
proof -
  let ?E = "scripted (answer_fill_fails PlaywrightTimeoutError)"
  let ?s1 = "sample_page_issued [Call (Fill (Locator ''#q'') (JStr ''hi'') 5000)]"
  have n: "get_field payload_empty ''value'' = JNull"
    by (simp add: payload_empty_def get_field_def dict_get_def)
  have v: "get_field payload_input ''value'' = JStr ''hi''"
    by (simp add: payload_input_def get_field_def dict_get_def)
  have f: "browser_call ?E (Fill (Locator ''#q'') (JStr ''hi'') 5000) sample_page
             = (Inl PlaywrightTimeoutError, ?s1)"
    by (simp add: browser_defs answer_fill_fails_def)
  have g: "fill_focused ?E (JStr ''hi'') ?s1
             = (Inr (), sample_page_issued
                  [Call (Fill (Locator ''#q'') (JStr ''hi'') 5000), Call (Count (Locator '':focus'')),
                   Call (Fill (Locator '':focus'') (JStr ''hi'') 2000)])"
    by (simp add: fill_focused_def browser_defs answer_fill_fails_def)
  have t: "truthy_selector (Some ''#q'') = Some ''#q''" by (simp add: truthy_selector_def)
  show ?thesis
    using n v f g t build_selector_input [of ?E]
      input_fallback [of payload_empty "scripted answer_closed" sample_page]
      input_fallback [of payload_input ?E sample_page "JStr ''hi''" "Some ''#q''" "''#q''"
        "Inl PlaywrightTimeoutError" ?s1]
    by simp
qed

text \<open>
  Claim C7 as stated fails when the selector fill fails with an error that is not a
  timeout: the step raises without trying the focused element, on which the fill would
  have worked.
\<close>

theorem input_fallback_counterexample:
  "perform_input (scripted (answer_fill_fails PlaywrightError)) payload_input sample_page
     = (Inl PlaywrightError, sample_page_issued [Call (Fill (Locator ''#q'') (JStr ''hi'') 5000)])
   \<and> fill_focused (scripted (answer_fill_fails PlaywrightError)) (JStr ''hi'') (sample_page_issued [])
     = (Inr (), sample_page_issued
          [Call (Count (Locator '':focus'')), Call (Fill (Locator '':focus'') (JStr ''hi'') 2000)])"
  by (simp add: exec_defs targeting_defs payload_input_def answer_fill_fails_def sample_page_def
        sample_page_issued_def)

text \<open>
  Claim C8 (as amended). When the payload resolves to no coordinates the hover handler
  does nothing. When it resolves to a point, the handler issues exactly one pointer
  move to it and nothing else, and it raises exactly when that move raises.
\<close>

theorem hover_single_pointer_move:
  "(extract_coordinates (floats E) payload = Inr None \<longrightarrow> perform_pointer_move E payload s = (Inr (), s))
   \<and> (extract_coordinates (floats E) payload = Inr (Some (x, y)) \<longrightarrow>
        issued (snd (perform_pointer_move E payload s)) = issued s @ [Call (MouseMove x y)]
        \<and> page (snd (perform_pointer_move E payload s)) = snd (respond E (MouseMove x y) (page s))
        \<and> initial_navigation_done (snd (perform_pointer_move E payload s)) = initial_navigation_done s
        \<and> (fst (perform_pointer_move E payload s) = Inl e
             \<longleftrightarrow> fst (respond E (MouseMove x y) (page s)) = Inl e))"
  by (auto simp: perform_pointer_move_def await_def browser_call_def split: prod.splits sum.splits)

theorem hover_single_pointer_move_witness:
  "extract_coordinates (floats (scripted answer_closed)) payload_empty = Inr None
   \<and> perform_pointer_move (scripted answer_closed) payload_empty sample_page = (Inr (), sample_page)
   \<and> extract_coordinates (floats (scripted answer_ok)) (event_data_json step_hover)
       = Inr (Some (Exact 7, Exact 8))
   \<and> issued (snd (perform_pointer_move (scripted answer_ok) (event_data_json step_hover) sample_page))
       = [Call (MouseMove (Exact 7) (Exact 8))]
   \<and> fst (perform_pointer_move (scripted answer_ok) (event_data_json step_hover) sample_page)
       \<noteq> Inl PlaywrightError"
proof -
  have a: "extract_coordinates (floats (scripted answer_closed)) payload_empty = Inr None"
    by (simp add: payload_empty_def targeting_defs get_field_def dict_get_def)
  have b: "extract_coordinates (floats (scripted answer_ok)) (event_data_json step_hover)
             = Inr (Some (Exact 7, Exact 8))"
    by (simp add: step_hover_def targeting_defs get_field_def dict_get_def scripted_def float_defs)
  show ?thesis
    using a b
      hover_single_pointer_move [where payload = payload_empty and E = "scripted answer_closed"
        and s = sample_page and x = "Exact 7" and y = "Exact 8" and e = PlaywrightError]
      hover_single_pointer_move [where payload = "event_data_json step_hover"
        and E = "scripted answer_ok" and s = sample_page and x = "Exact 7" and y = "Exact 8" and e = PlaywrightError]
    by (simp add: scripted_def answer_ok_def sample_page_def navigated_session_def)
qed

text \<open>
  Claim C8 as stated fails when the pointer move itself fails: the handler has no
  \<^verbatim>\<open>try\<close> around it, the exception reaches the orchestrator and the replay stops.
\<close>

theorem hover_fatal_counterexample:
  "perform_pointer_move (scripted answer_closed) (event_data_json step_hover) sample_page
     = (Inl PlaywrightError, sample_page_issued [Call (MouseMove (Exact 7) (Exact 8))])
   \<and> run (scripted answer_closed) [step_hover, step_wait_load] False
        (new_session ''https://example.com/a'')
     = (StoppedOnError, [(step_hover, Some PlaywrightError)],
        sample_page_issued [Call (MouseMove (Exact 7) (Exact 8))])"
  by (simp add: exec_defs targeting_defs float_defs step_hover_def step_wait_load_def
        answer_closed_def sample_page_def sample_page_issued_def)

end
